theory Spec2Isabelle
  imports Main "HOL-Library.Word"
begin

unbundle bit_operations_syntax

section \<open>Python values\<close>

text \<open>
  A Python \<open>str\<close> is a sequence of Unicode code points and is modelled as a list of
  natural numbers; \<open>bytes\<close> is a list of 8-bit words. A literal of the source is written
  \<open>lit ''...''\<close>; a code point outside ASCII is written as its number (233 is
  e-acute, 232 e-grave, 231 c-cedilla).
\<close>

type_synonym str = "nat list"
type_synonym bytes = "8 word list"

definition lit :: "string \<Rightarrow> str" where
  "lit s = map of_char s"

text \<open>
  The event of an invocation is the value that the runtime parsed from JSON: \<open>None\<close>,
  a boolean, an integer, a string, a list, or a dict with string keys (an association
  list; a lookup takes the first entry of a key). Numbers with a fractional part are
  not modelled.
\<close>

datatype pyval =
    PNone
  | PBool bool
  | PInt int
  | PStr str
  | PList "pyval list"
  | PDict "(str \<times> pyval) list"

text \<open>
  The exceptions of the program, all subclasses of \<open>Exception\<close>. \<open>ClientError\<close> stands
  for any exception raised inside an external client (botocore, urllib3, openai), with
  its message; \<open>RetryError\<close> is the exception of the retry library, wrapping the
  exception of the last attempt.
\<close>

datatype exn =
    KeyError pyval
  | TypeError
  | AttributeError
  | IndexError
  | ValueError str
  | UnicodeDecodeError
  | UnicodeEncodeError
  | ClientError str
  | RetryError exn

text \<open>Truth value of an object, as \<open>if x\<close>, \<open>x and y\<close> and \<open>not x\<close> test it.\<close>

fun truthy :: "pyval \<Rightarrow> bool" where
  "truthy PNone = False"
| "truthy (PBool b) = b"
| "truthy (PInt i) = (i \<noteq> 0)"
| "truthy (PStr s) = (s \<noteq> [])"
| "truthy (PList xs) = (xs \<noteq> [])"
| "truthy (PDict kvs) = (kvs \<noteq> [])"

text \<open>\<open>d.get(k)\<close> and \<open>d.get(k, default)\<close>: a method of dicts only.\<close>

fun py_get :: "pyval \<Rightarrow> str \<Rightarrow> pyval \<Rightarrow> exn + pyval" where
  "py_get (PDict kvs) k dflt = (case map_of kvs k of None \<Rightarrow> Inr dflt | Some v \<Rightarrow> Inr v)"
| "py_get _ k dflt = Inl AttributeError"

text \<open>
  \<open>x[i]\<close>: a dict raises \<open>KeyError\<close> on a missing key (a dict parsed from JSON has no
  integer key); a list or a string takes an integer index, negative ones counting from
  the end, and raises \<open>IndexError\<close> out of range and \<open>TypeError\<close> on another index;
  the other values are not subscriptable. A boolean index is the integer 0 or 1.
\<close>

definition seq_index :: "'a list \<Rightarrow> int \<Rightarrow> exn + 'a" where
  "seq_index xs i =
     (if 0 \<le> i \<and> i < int (length xs) then Inr (xs ! nat i)
      else if i < 0 \<and> - i \<le> int (length xs) then Inr (xs ! nat (int (length xs) + i))
      else Inl IndexError)"

fun index_of :: "pyval \<Rightarrow> int option" where
  "index_of (PInt i) = Some i"
| "index_of (PBool b) = Some (if b then 1 else 0)"
| "index_of _ = None"

fun hashable :: "pyval \<Rightarrow> bool" where
  "hashable (PList xs) = False"
| "hashable (PDict kvs) = False"
| "hashable _ = True"

fun py_getitem :: "pyval \<Rightarrow> pyval \<Rightarrow> exn + pyval" where
  "py_getitem (PDict kvs) (PStr k) =
     (case map_of kvs k of None \<Rightarrow> Inl (KeyError (PStr k)) | Some v \<Rightarrow> Inr v)"
| "py_getitem (PDict kvs) k = (if hashable k then Inl (KeyError k) else Inl TypeError)"
| "py_getitem (PList xs) i =
     (case index_of i of None \<Rightarrow> Inl TypeError | Some j \<Rightarrow> seq_index xs j)"
| "py_getitem (PStr s) i =
     (case index_of i of None \<Rightarrow> Inl TypeError
      | Some j \<Rightarrow> (case seq_index s j of Inl e \<Rightarrow> Inl e | Inr c \<Rightarrow> Inr (PStr [c])))"
| "py_getitem _ i = Inl TypeError"

text \<open>
  \<open>k in x\<close> for a string \<open>k\<close>: key membership in a dict, element membership in a list,
  substring test in a string; the other values are not iterable.
\<close>

fun is_substring :: "'a list \<Rightarrow> 'a list \<Rightarrow> bool" where
  "is_substring k [] = (k = [])"
| "is_substring k (c # cs) = (take (length k) (c # cs) = k \<or> is_substring k cs)"

fun str_in :: "str \<Rightarrow> pyval \<Rightarrow> exn + bool" where
  "str_in k (PDict kvs) = Inr (map_of kvs k \<noteq> None)"
| "str_in k (PList xs) = Inr (PStr k \<in> set xs)"
| "str_in k (PStr s) = Inr (is_substring k s)"
| "str_in k _ = Inl TypeError"

section \<open>Library functions\<close>

subsection \<open>Decimal and hexadecimal digits\<close>

definition digit_char :: "nat \<Rightarrow> nat" where
  "digit_char d = (if d < 10 then 48 + d else 87 + d)"

fun decimal_nat :: "nat \<Rightarrow> str" where
  "decimal_nat n =
     (if n < 10 then [digit_char n] else decimal_nat (n div 10) @ [digit_char (n mod 10)])"

declare decimal_nat.simps [simp del]

definition decimal :: "int \<Rightarrow> str" where
  "decimal i = (if i < 0 then 45 # decimal_nat (nat (- i)) else decimal_nat (nat i))"

definition hex4 :: "nat \<Rightarrow> str" where
  "hex4 n = [digit_char (n div 4096 mod 16), digit_char (n div 256 mod 16),
             digit_char (n div 16 mod 16), digit_char (n mod 16)]"

subsection \<open>\<open>json.dumps\<close>\<close>

text \<open>
  \<open>json.dumps\<close> with its defaults (\<open>ensure_ascii=True\<close>, separators \<open>', '\<close> and
  \<open>': '\<close>): inside a string, the quote and the backslash are escaped, the control
  characters \<open>\b \t \n \f \r\<close> get their short form, and every other code point
  outside \<open>' '..'~'\<close> becomes \<open>\uXXXX\<close>, a code point beyond the basic plane as a
  surrogate pair.
\<close>

definition json_escape_char :: "nat \<Rightarrow> str" where
  "json_escape_char c =
     (if c = 34 then [92, 34]
      else if c = 92 then [92, 92]
      else if c = 8 then [92, 98]
      else if c = 9 then [92, 116]
      else if c = 10 then [92, 110]
      else if c = 12 then [92, 102]
      else if c = 13 then [92, 114]
      else if 32 \<le> c \<and> c \<le> 126 then [c]
      else if c < 65536 then [92, 117] @ hex4 c
      else [92, 117] @ hex4 (55296 + (c - 65536) div 1024 mod 1024)
         @ [92, 117] @ hex4 (56320 + (c - 65536) mod 1024))"

definition json_string :: "str \<Rightarrow> str" where
  "json_string s = [34] @ concat (map json_escape_char s) @ [34]"

fun join :: "str \<Rightarrow> str list \<Rightarrow> str" where
  "join sep [] = []"
| "join sep [x] = x"
| "join sep (x # y # ys) = x @ sep @ join sep (y # ys)"

fun json_dumps :: "pyval \<Rightarrow> str" where
  "json_dumps PNone = lit ''null''"
| "json_dumps (PBool b) = (if b then lit ''true'' else lit ''false'')"
| "json_dumps (PInt i) = decimal i"
| "json_dumps (PStr s) = json_string s"
| "json_dumps (PList xs) = [91] @ join [44, 32] (map json_dumps xs) @ [93]"
| "json_dumps (PDict kvs) =
     [123] @ join [44, 32] (map (\<lambda>(k, v). json_string k @ [58, 32] @ json_dumps v) kvs) @ [125]"

subsection \<open>UTF-8\<close>

text \<open>
  \<open>s.encode('utf-8')\<close>: one to four bytes per code point; a surrogate code point
  cannot be encoded.
\<close>

definition utf8_encode_char :: "nat \<Rightarrow> exn + bytes" where
  "utf8_encode_char c =
     (if c < 128 then Inr [of_nat c]
      else if c < 2048 then Inr [of_nat (192 + c div 64), of_nat (128 + c mod 64)]
      else if 55296 \<le> c \<and> c < 57344 then Inl UnicodeEncodeError
      else if c < 65536 then
        Inr [of_nat (224 + c div 4096), of_nat (128 + c div 64 mod 64), of_nat (128 + c mod 64)]
      else
        Inr [of_nat (240 + c div 262144), of_nat (128 + c div 4096 mod 64),
             of_nat (128 + c div 64 mod 64), of_nat (128 + c mod 64)])"

fun utf8_encode :: "str \<Rightarrow> exn + bytes" where
  "utf8_encode [] = Inr []"
| "utf8_encode (c # cs) =
     (case utf8_encode_char c of Inl e \<Rightarrow> Inl e
      | Inr bs \<Rightarrow> (case utf8_encode cs of Inl e \<Rightarrow> Inl e | Inr rest \<Rightarrow> Inr (bs @ rest)))"

text \<open>
  \<open>b.decode('utf-8')\<close>, strict: a continuation byte is \<open>10xxxxxx\<close>; overlong forms,
  surrogates and code points beyond U+10FFFF are rejected through the ranges allowed
  for the second byte.
\<close>

definition cont :: "8 word \<Rightarrow> bool" where
  "cont b = (128 \<le> b \<and> b \<le> 191)"

definition low6 :: "8 word \<Rightarrow> nat" where
  "low6 b = unat b mod 64"

fun utf8_decode :: "bytes \<Rightarrow> exn + str" where
  "utf8_decode [] = Inr []"
| "utf8_decode (b0 # bs) =
     (if b0 < 128 then
        (case utf8_decode bs of Inl e \<Rightarrow> Inl e | Inr cs \<Rightarrow> Inr (unat b0 # cs))
      else if 194 \<le> b0 \<and> b0 \<le> 223 then
        (case bs of
           b1 # r \<Rightarrow>
             if cont b1 then
               (case utf8_decode r of Inl e \<Rightarrow> Inl e
                | Inr cs \<Rightarrow> Inr (((unat b0 mod 32) * 64 + low6 b1) # cs))
             else Inl UnicodeDecodeError
         | _ \<Rightarrow> Inl UnicodeDecodeError)
      else if 224 \<le> b0 \<and> b0 \<le> 239 then
        (case bs of
           b1 # b2 # r \<Rightarrow>
             if (if b0 = 224 then 160 \<le> b1 \<and> b1 \<le> 191
                 else if b0 = 237 then 128 \<le> b1 \<and> b1 \<le> 159
                 else cont b1) \<and> cont b2 then
               (case utf8_decode r of Inl e \<Rightarrow> Inl e
                | Inr cs \<Rightarrow> Inr (((unat b0 mod 16) * 4096 + low6 b1 * 64 + low6 b2) # cs))
             else Inl UnicodeDecodeError
         | _ \<Rightarrow> Inl UnicodeDecodeError)
      else if 240 \<le> b0 \<and> b0 \<le> 244 then
        (case bs of
           b1 # b2 # b3 # r \<Rightarrow>
             if (if b0 = 240 then 144 \<le> b1 \<and> b1 \<le> 191
                 else if b0 = 244 then 128 \<le> b1 \<and> b1 \<le> 143
                 else cont b1) \<and> cont b2 \<and> cont b3 then
               (case utf8_decode r of Inl e \<Rightarrow> Inl e
                | Inr cs \<Rightarrow>
                    Inr (((unat b0 mod 8) * 262144 + low6 b1 * 4096 + low6 b2 * 64 + low6 b3) # cs))
             else Inl UnicodeDecodeError
         | _ \<Rightarrow> Inl UnicodeDecodeError)
      else Inl UnicodeDecodeError)"

subsection \<open>\<open>str.lower\<close>\<close>

text \<open>
  The program lowers a string only to compare it with \<open>'true'\<close>. \<open>ascii_lower\<close>
  lowers the letters A to Z; \<open>str.lower\<close> maps no other code point to one of the
  letters t, r, u, e, so the comparison has the same outcome.
\<close>

definition ascii_lower :: "str \<Rightarrow> str" where
  "ascii_lower s = map (\<lambda>c. if 65 \<le> c \<and> c \<le> 90 then c + 32 else c) s"

text \<open>
  \<open>str(x)\<close>, also inside an f-string: a string is itself, \<open>None\<close>, booleans and
  integers have a fixed form; the form of a list or dict is taken from the parameter
  \<open>repr\<close>.
\<close>

fun py_str :: "(pyval \<Rightarrow> str) \<Rightarrow> pyval \<Rightarrow> str" where
  "py_str repr (PStr s) = s"
| "py_str repr PNone = lit ''None''"
| "py_str repr (PBool b) = (if b then lit ''True'' else lit ''False'')"
| "py_str repr (PInt i) = decimal i"
| "py_str repr v = repr v"

section \<open>External services and effects\<close>

datatype lambda_context = Context (log_stream_name: str)

datatype chat_message = ChatMessage (content: "str option")
datatype choice = Choice (message: "chat_message option")
datatype chat_completion = ChatCompletion (choices: "choice list option")

datatype openai_client = OpenAI (base_url: str) (api_key: str)

text \<open>
  Every interaction of an invocation with the outside is an entry of its trace, in the
  order of the calls. A line of the log is recorded by the fixed words of its message
  and the values it interpolates; \<open>PrintExc\<close> is \<open>traceback.print_exc()\<close>. The clock
  (\<open>time.time()\<close>) is read for the log only and is left out.
\<close>

datatype logarg = LVal pyval | LStr str | LNat nat | LExn exn | LResp chat_completion

datatype call =
    Print string "logarg list"
  | PrintExc exn
  | Sleep nat
  | SsmGetParameter str bool
  | ChatCompletionsCreate openai_client str pyval
  | HttpRequest str pyval bytes "(str \<times> str) list"
  | PutBucketPolicy pyval str
  | DeleteBucketPolicy pyval
  | GetObject pyval pyval
  | PutItem str pyval
  | Publish str str str

text \<open>
  The outside world answers each call with a result or an exception; the answer may
  depend on the arguments and on everything that happened before (the trace at the
  time of the call). \<open>ssm_get_parameter\<close> answers with the value of the parameter,
  \<open>s3_get_object\<close> with the bytes read from the body of the object, \<open>http_request\<close>
  with the status of the response. \<open>str_of_exn\<close> is \<open>str(e)\<close> and \<open>repr\<close> the
  printed form of a list or dict.
\<close>

record world =
  ssm_get_parameter :: "call list \<Rightarrow> str \<Rightarrow> bool \<Rightarrow> exn + str"
  chat_completions_create :: "call list \<Rightarrow> openai_client \<Rightarrow> str \<Rightarrow> pyval \<Rightarrow> exn + chat_completion"
  http_request :: "call list \<Rightarrow> str \<Rightarrow> pyval \<Rightarrow> bytes \<Rightarrow> (str \<times> str) list \<Rightarrow> exn + nat"
  s3_put_bucket_policy :: "call list \<Rightarrow> pyval \<Rightarrow> str \<Rightarrow> exn + unit"
  s3_delete_bucket_policy :: "call list \<Rightarrow> pyval \<Rightarrow> exn + unit"
  s3_get_object :: "call list \<Rightarrow> pyval \<Rightarrow> pyval \<Rightarrow> exn + bytes"
  table_put_item :: "call list \<Rightarrow> str \<Rightarrow> pyval \<Rightarrow> exn + unit"
  sns_publish :: "call list \<Rightarrow> str \<Rightarrow> str \<Rightarrow> str \<Rightarrow> exn + unit"
  str_of_exn :: "exn \<Rightarrow> str"
  repr :: "pyval \<Rightarrow> str"

text \<open>
  A computation takes the trace so far and returns its result, a value or the exception
  it raises, with the extended trace.
\<close>

type_synonym 'a io = "call list \<Rightarrow> (exn + 'a) \<times> call list"

definition return :: "'a \<Rightarrow> 'a io" where
  "return x = (\<lambda>t. (Inr x, t))"

definition raise :: "exn \<Rightarrow> 'a io" where
  "raise e = (\<lambda>t. (Inl e, t))"

definition lift :: "exn + 'a \<Rightarrow> 'a io" where
  "lift r = (\<lambda>t. (r, t))"

definition bind :: "'a io \<Rightarrow> ('a \<Rightarrow> 'b io) \<Rightarrow> 'b io" where
  "bind m f = (\<lambda>t. case m t of (Inl e, t') \<Rightarrow> (Inl e, t') | (Inr x, t') \<Rightarrow> f x t')"

definition seq :: "'a io \<Rightarrow> 'b io \<Rightarrow> 'b io" where
  "seq m n = bind m (\<lambda>_. n)"

definition try_except :: "'a io \<Rightarrow> (exn \<Rightarrow> 'a io) \<Rightarrow> 'a io" where
  "try_except m h = (\<lambda>t. case m t of (Inl e, t') \<Rightarrow> h e t' | (Inr x, t') \<Rightarrow> (Inr x, t'))"

definition perform :: "call \<Rightarrow> (call list \<Rightarrow> exn + 'a) \<Rightarrow> 'a io" where
  "perform c answer = (\<lambda>t. (answer t, t @ [c]))"

definition print :: "string \<Rightarrow> logarg list \<Rightarrow> unit io" where
  "print msg args = perform (Print msg args) (\<lambda>t. Inr ())"

definition print_exc :: "exn \<Rightarrow> unit io" where
  "print_exc e = perform (PrintExc e) (\<lambda>t. Inr ())"

definition sbind :: "exn + 'a \<Rightarrow> ('a \<Rightarrow> exn + 'b) \<Rightarrow> exn + 'b" where
  "sbind r f = (case r of Inl e \<Rightarrow> Inl e | Inr x \<Rightarrow> f x)"

text \<open>\<open>os.environ[name]\<close>.\<close>

definition environ_getitem :: "(str \<rightharpoonup> str) \<Rightarrow> str \<Rightarrow> exn + str" where
  "environ_getitem environ name =
     (case environ name of None \<Rightarrow> Inl (KeyError (PStr name)) | Some v \<Rightarrow> Inr v)"

section \<open>The module\<close>

subsection \<open>Feature flags\<close>

record flags =
  ENABLE_OPENROUTER :: bool
  ENABLE_DYNAMODB :: bool
  ENABLE_SNS :: bool

definition env_flag :: "(str \<rightharpoonup> str) \<Rightarrow> str \<Rightarrow> bool" where
  "env_flag environ name =
     (ascii_lower (case environ name of None \<Rightarrow> lit ''true'' | Some v \<Rightarrow> v) = lit ''true'')"

definition module_flags :: "(str \<rightharpoonup> str) \<Rightarrow> flags" where
  "module_flags environ =
     \<lparr>ENABLE_OPENROUTER = env_flag environ (lit ''ENABLE_OPENROUTER''),
      ENABLE_DYNAMODB = env_flag environ (lit ''ENABLE_DYNAMODB''),
      ENABLE_SNS = env_flag environ (lit ''ENABLE_SNS'')\<rparr>"

subsection \<open>Summarization client\<close>

definition get_api_key :: "world \<Rightarrow> (str \<rightharpoonup> str) \<Rightarrow> str io" where
  "get_api_key w environ =
     try_except
       (bind (lift (environ_getitem environ (lit ''OPENROUTER_API_KEY_PARAM''))) (\<lambda>name.
        perform (SsmGetParameter name True) (\<lambda>t. ssm_get_parameter w t name True)))
       (\<lambda>e. seq (print ''Failed to retrieve OpenRouter API key'' [LExn e]) (raise e))"

definition get_openrouter_client :: "world \<Rightarrow> (str \<rightharpoonup> str) \<Rightarrow> openai_client io" where
  "get_openrouter_client w environ =
     bind (get_api_key w environ) (\<lambda>k. return (OpenAI (lit ''https://openrouter.ai/api/v1'') k))"

definition summary_prompt :: str where
  "summary_prompt = lit ''R'' @ [233] @ lit ''sume ce texte de mani'' @ [232]
     @ lit ''re concise en fran'' @ [231] @ lit ''ais :'' @ [10, 10]"

definition call_openrouter_attempt :: "world \<Rightarrow> (str \<rightharpoonup> str) \<Rightarrow> str \<Rightarrow> chat_completion io" where
  "call_openrouter_attempt w environ text =
     bind (get_openrouter_client w environ) (\<lambda>client.
       let model = lit ''mistralai/devstral-small-2505:free'';
           messages = PList [PDict [(lit ''role'', PStr (lit ''user'')),
                                    (lit ''content'', PStr (summary_prompt @ take 1000 text))]]
       in perform (ChatCompletionsCreate client model messages)
            (\<lambda>t. chat_completions_create w t client model messages))"

text \<open>
  The decorator \<open>@retry(stop=stop_after_attempt(3), wait=wait_fixed(2))\<close>: the loop of
  the retry library. Attempts are numbered from 1; an attempt that raises any
  exception is followed, unless its number has reached \<open>stop\<close>, by a sleep of \<open>wait\<close>
  seconds and the next attempt; when the number has reached \<open>stop\<close> the library raises
  its \<open>RetryError\<close> around the last exception (\<open>reraise\<close> is off by default).
\<close>

function retry_loop :: "nat \<Rightarrow> nat \<Rightarrow> 'a io \<Rightarrow> nat \<Rightarrow> 'a io" where
  "retry_loop stop wait f n t =
     (case f t of
        (Inr r, t') \<Rightarrow> (Inr r, t')
      | (Inl e, t') \<Rightarrow>
          if stop \<le> n then (Inl (RetryError e), t')
          else retry_loop stop wait f (Suc n) (t' @ [Sleep wait]))"
  by pat_completeness auto
termination
  by (relation "measure (\<lambda>(stop, wait, f, n, t). stop - n)") auto

declare retry_loop.simps [simp del]

definition retry :: "nat \<Rightarrow> nat \<Rightarrow> 'a io \<Rightarrow> 'a io" where
  "retry stop wait f = retry_loop stop wait f 1"

definition call_openrouter :: "world \<Rightarrow> (str \<rightharpoonup> str) \<Rightarrow> str \<Rightarrow> chat_completion io" where
  "call_openrouter w environ text = retry 3 2 (call_openrouter_attempt w environ text)"

subsection \<open>Callback reporter\<close>

text \<open>
  The dict \<open>response_body\<close> that \<open>send_cfn_response\<close> builds before its \<open>try\<close>
  block; its entries are evaluated in the order written, and a missing key of the
  event raises there.
\<close>

definition response_body :: "pyval \<Rightarrow> lambda_context \<Rightarrow> str \<Rightarrow> pyval \<Rightarrow> exn + pyval" where
  "response_body event context status response_data =
     sbind (py_get event (lit ''PhysicalResourceId'') (PStr (log_stream_name context))) (\<lambda>physical_id.
     sbind (py_getitem event (PStr (lit ''StackId''))) (\<lambda>stack_id.
     sbind (py_getitem event (PStr (lit ''RequestId''))) (\<lambda>request_id.
     sbind (py_getitem event (PStr (lit ''LogicalResourceId''))) (\<lambda>logical_id.
     Inr (PDict
       [(lit ''Status'', PStr status),
        (lit ''Reason'', PStr (lit ''See CloudWatch Log Stream: '' @ log_stream_name context)),
        (lit ''PhysicalResourceId'', physical_id),
        (lit ''StackId'', stack_id),
        (lit ''RequestId'', request_id),
        (lit ''LogicalResourceId'', logical_id),
        (lit ''Data'', response_data)])))))"

definition put_headers :: "str \<Rightarrow> (str \<times> str) list" where
  "put_headers response_body_json =
     [(lit ''Content-Type'', lit ''application/json''),
      (lit ''Content-Length'', decimal (int (length response_body_json)))]"

definition send_cfn_response ::
  "world \<Rightarrow> pyval \<Rightarrow> lambda_context \<Rightarrow> str \<Rightarrow> pyval \<Rightarrow> bool io" where
  "send_cfn_response w event context status response_data0 =
     (let response_data = (if response_data0 = PNone then PDict [] else response_data0) in
      bind (lift (response_body event context status response_data)) (\<lambda>body_dict.
      try_except
        (let response_body_json = json_dumps body_dict in
         bind (lift (py_getitem event (PStr (lit ''ResponseURL'')))) (\<lambda>url.
         bind (lift (utf8_encode response_body_json)) (\<lambda>body.
         let headers = put_headers response_body_json in
         bind (perform (HttpRequest (lit ''PUT'') url body headers)
                 (\<lambda>t. http_request w t (lit ''PUT'') url body headers)) (\<lambda>response_status.
         seq (print ''CloudFormation response sent. Status'' [LNat response_status])
             (return True)))))
        (\<lambda>e. seq (print ''Failed to send CloudFormation response'' [LExn e])
             (seq (print_exc e) (return False)))))"

subsection \<open>Provisioning-callback flow\<close>

definition apply_bucket_policy :: "world \<Rightarrow> pyval \<Rightarrow> lambda_context \<Rightarrow> unit io" where
  "apply_bucket_policy w event context =
     try_except
       (bind (lift (py_getitem event (PStr (lit ''RequestType'')))) (\<lambda>request_type.
        seq (print ''Custom resource event'' [LVal request_type])
        (if request_type \<in> set [PStr (lit ''Create''), PStr (lit ''Update'')] then
           bind (lift (sbind (py_getitem event (PStr (lit ''ResourceProperties'')))
                         (\<lambda>p. py_getitem p (PStr (lit ''BucketName''))))) (\<lambda>bucket_name.
           bind (lift (sbind (py_getitem event (PStr (lit ''ResourceProperties'')))
                         (\<lambda>p. py_getitem p (PStr (lit ''PolicyDocument''))))) (\<lambda>policy_document_dict.
           let policy_document_str = json_dumps policy_document_dict in
           seq (perform (PutBucketPolicy bucket_name policy_document_str)
                  (\<lambda>t. s3_put_bucket_policy w t bucket_name policy_document_str))
          (seq (print ''Applied bucket policy to'' [LVal bucket_name])
          (seq (send_cfn_response w event context (lit ''SUCCESS'')
                  (PDict [(lit ''Message'',
                     PStr (lit ''Bucket policy applied successfully to ''
                           @ py_str (repr w) bucket_name))]))
               (return ())))))
         else if request_type = PStr (lit ''Delete'') then
           bind (lift (sbind (py_getitem event (PStr (lit ''ResourceProperties'')))
                         (\<lambda>p. py_getitem p (PStr (lit ''BucketName''))))) (\<lambda>bucket_name.
           seq (try_except
                  (seq (perform (DeleteBucketPolicy bucket_name)
                          (\<lambda>t. s3_delete_bucket_policy w t bucket_name))
                       (print ''Removed bucket policy from'' [LVal bucket_name]))
                  (\<lambda>e. print ''Could not remove bucket policy'' [LExn e]))
          (seq (send_cfn_response w event context (lit ''SUCCESS'')
                  (PDict [(lit ''Message'',
                     PStr (lit ''Bucket policy removal completed for ''
                           @ py_str (repr w) bucket_name))]))
               (return ())))
         else return ())))
       (\<lambda>e. seq (print ''Error in bucket policy operation'' [LExn e])
            (seq (print_exc e)
            (seq (send_cfn_response w event context (lit ''FAILED'')
                    (PDict [(lit ''Error'', PStr (str_of_exn w e))]))
                 (return ()))))"

subsection \<open>Dispatcher and ingestion flow\<close>

text \<open>
  The two tests of the dispatcher. \<open>x and y\<close> evaluates \<open>y\<close> only when \<open>x\<close> is true,
  \<open>x or y\<close> only when \<open>x\<close> is false.
\<close>

definition is_custom_resource_event :: "pyval \<Rightarrow> exn + bool" where
  "is_custom_resource_event event =
     sbind (py_get event (lit ''RequestType'') PNone) (\<lambda>request_type.
     if \<not> truthy request_type then Inr False else
     sbind (py_get event (lit ''ResourceProperties'') PNone) (\<lambda>props.
     if \<not> truthy props then Inr False else
     sbind (py_getitem event (PStr (lit ''ResourceProperties''))) (\<lambda>props'.
     str_in (lit ''BucketName'') props')))"

definition invalid_s3_event :: "pyval \<Rightarrow> exn + bool" where
  "invalid_s3_event event =
     sbind (py_get event (lit ''Records'') PNone) (\<lambda>records.
     if \<not> truthy records then Inr True else
     sbind (py_getitem event (PStr (lit ''Records''))) (\<lambda>records'.
     sbind (py_getitem records' (PInt 0)) (\<lambda>record.
     sbind (py_get record (lit ''s3'') PNone) (\<lambda>s3.
     Inr (\<not> truthy s3)))))"

text \<open>A chain of subscripts \<open>x[k1][k2]...\<close>.\<close>

fun subscripts :: "pyval \<Rightarrow> pyval list \<Rightarrow> exn + pyval" where
  "subscripts v [] = Inr v"
| "subscripts v (k # ks) = sbind (py_getitem v k) (\<lambda>v'. subscripts v' ks)"

text \<open>
  The validation of the storage event and the reading of \<open>bucket\<close> and \<open>key\<close> from its
  first record.
\<close>

definition s3_event_target :: "pyval \<Rightarrow> exn + pyval \<times> pyval" where
  "s3_event_target event =
     sbind (invalid_s3_event event) (\<lambda>invalid.
     if invalid then Inl (ValueError (lit ''Invalid S3 event structure''))
     else
       sbind (subscripts event
                [PStr (lit ''Records''), PInt 0, PStr (lit ''s3''), PStr (lit ''bucket''),
                 PStr (lit ''name'')]) (\<lambda>bucket.
       sbind (subscripts event
                [PStr (lit ''Records''), PInt 0, PStr (lit ''s3''), PStr (lit ''object''),
                 PStr (lit ''key'')]) (\<lambda>key.
       Inr (bucket, key))))"

text \<open>Step 1, the fetch: the \<open>try\<close> block logs the exception and raises it again.\<close>

definition fetch_text :: "world \<Rightarrow> pyval \<Rightarrow> pyval \<Rightarrow> str io" where
  "fetch_text w bucket key =
     try_except
       (bind (perform (GetObject bucket key) (\<lambda>t. s3_get_object w t bucket key)) (\<lambda>body.
        bind (lift (utf8_decode body)) (\<lambda>text.
        seq (print ''Loaded'' [LVal key, LNat (length text)])
            (return text))))
       (\<lambda>e. seq (print ''S3 error'' [LExn e]) (raise e))"

definition placeholder_summary :: str where
  "placeholder_summary = lit ''R'' @ [233] @ lit ''sum'' @ [233] @ lit '' non g'' @ [233]
     @ lit ''n'' @ [233] @ lit ''r'' @ [233] @ lit ''.''"

text \<open>Step 2: the value of \<open>summary\<close> after the block.\<close>

definition summarize :: "world \<Rightarrow> flags \<Rightarrow> (str \<rightharpoonup> str) \<Rightarrow> str \<Rightarrow> str io" where
  "summarize w fl environ text =
     (let summary = placeholder_summary in
      if ENABLE_OPENROUTER fl then
        try_except
          (bind (call_openrouter w environ text) (\<lambda>resp.
             case choices resp of
               None \<Rightarrow> seq (print ''Empty or unexpected response from OpenRouter'' [LResp resp])
                          (return summary)
             | Some [] \<Rightarrow> seq (print ''Empty or unexpected response from OpenRouter'' [LResp resp])
                             (return summary)
             | Some (c # cs) \<Rightarrow>
                 (case message c of
                    None \<Rightarrow> raise AttributeError
                  | Some m \<Rightarrow>
                      (case content m of
                         None \<Rightarrow> seq (print ''Empty or unexpected response from OpenRouter'' [LResp resp])
                                    (return summary)
                       | Some s \<Rightarrow>
                           if s \<noteq> [] then
                             seq (print ''Summary received'' [LStr (take 200 s)]) (return s)
                           else
                             seq (print ''Empty or unexpected response from OpenRouter'' [LResp resp])
                                 (return summary)))))
          (\<lambda>e. seq (print ''OpenRouter error'' [LExn e]) (seq (print_exc e) (return summary)))
      else return summary)"

definition summary_item :: "pyval \<Rightarrow> pyval \<Rightarrow> str \<Rightarrow> str \<Rightarrow> pyval" where
  "summary_item key bucket text summary =
     PDict [(lit ''NomFichier'', key), (lit ''Bucket'', bucket), (lit ''Texte'', PStr text),
            (lit ''R'' @ [233] @ lit ''sum'' @ [233], PStr summary)]"

text \<open>Step 3. \<open>serialized_size\<close> is \<open>len(json.dumps(item).encode('utf-8'))\<close>.\<close>

definition serialized_size :: "pyval \<Rightarrow> exn + nat" where
  "serialized_size item = sbind (utf8_encode (json_dumps item)) (\<lambda>encoded. Inr (length encoded))"

definition persist ::
  "world \<Rightarrow> flags \<Rightarrow> (str \<rightharpoonup> str) \<Rightarrow> pyval \<Rightarrow> pyval \<Rightarrow> str \<Rightarrow> str \<Rightarrow> unit io" where
  "persist w fl environ key bucket text summary =
     (if ENABLE_DYNAMODB fl then
        try_except
          (bind (lift (environ_getitem environ (lit ''TABLE_NAME''))) (\<lambda>table.
           let item = summary_item key bucket text summary in
           bind (lift (serialized_size item)) (\<lambda>item_size.
           if item_size > 400000 then
             raise (ValueError (lit ''Item size exceeds DynamoDB 400 KB limit''))
           else
             seq (perform (PutItem table item) (\<lambda>t. table_put_item w t table item))
                 (print ''Saved to DynamoDB'' []))))
          (\<lambda>e. seq (print ''DynamoDB error'' [LExn e]) (print_exc e))
      else return ())"

text \<open>Step 4: the subject and the message of the notification, and the publication.\<close>

definition notification_subject :: "world \<Rightarrow> pyval \<Rightarrow> str" where
  "notification_subject w key = lit ''Nouveau fichier dans S3 : '' @ py_str (repr w) key"

definition notification_message :: "world \<Rightarrow> pyval \<Rightarrow> pyval \<Rightarrow> str \<Rightarrow> str" where
  "notification_message w key bucket summary =
     lit ''Un fichier nomm'' @ [233, 32, 39] @ py_str (repr w) key @ [39]
     @ lit '' a '' @ [233] @ lit ''t'' @ [233] @ lit '' d'' @ [233] @ lit ''pos'' @ [233]
     @ lit '' dans le bucket '' @ [39] @ py_str (repr w) bucket @ [39, 46, 10, 10]
     @ lit ''R'' @ [233] @ lit ''sum'' @ [233] @ lit '' du contenu :'' @ [10, 10]
     @ take 1000 summary"

definition notify ::
  "world \<Rightarrow> flags \<Rightarrow> (str \<rightharpoonup> str) \<Rightarrow> pyval \<Rightarrow> pyval \<Rightarrow> str \<Rightarrow> unit io" where
  "notify w fl environ key bucket summary =
     (if ENABLE_SNS fl then
        try_except
          (let subject = notification_subject w key;
               message = notification_message w key bucket summary
           in
           bind (lift (environ_getitem environ (lit ''TOPIC_ARN''))) (\<lambda>topic.
           seq (perform (Publish topic subject message)
                  (\<lambda>t. sns_publish w t topic subject message))
               (print ''SNS notification sent'' [])))
          (\<lambda>e. seq (print ''SNS error'' [LExn e]) (print_exc e))
      else return ())"

definition success_result :: pyval where
  "success_result =
     PDict [(lit ''statusCode'', PInt 200), (lit ''body'', PStr (json_dumps (PStr (lit ''Success''))))]"

definition failure_result :: pyval where
  "failure_result =
     PDict [(lit ''statusCode'', PInt 500), (lit ''body'', PStr (json_dumps (PStr (lit ''Lambda error''))))]"

definition lambda_handler ::
  "world \<Rightarrow> flags \<Rightarrow> (str \<rightharpoonup> str) \<Rightarrow> pyval \<Rightarrow> lambda_context \<Rightarrow> pyval io" where
  "lambda_handler w fl environ event context =
     try_except
       (seq (print ''Received event'' [LStr (json_dumps event)])
       (bind (lift (is_custom_resource_event event)) (\<lambda>custom.
        if custom then seq (apply_bucket_policy w event context) (return PNone)
        else
          bind (lift (s3_event_target event)) (\<lambda>(bucket, key).
          bind (fetch_text w bucket key) (\<lambda>text.
          bind (summarize w fl environ text) (\<lambda>summary.
          seq (persist w fl environ key bucket text summary)
         (seq (notify w fl environ key bucket summary)
         (seq (print ''Processing took'' [])
              (return success_result)))))))))
       (\<lambda>e. seq (print ''General error'' [LExn e])
            (seq (print_exc e) (return failure_result)))"

section \<open>Observations\<close>

text \<open>The calls that a computation adds to the trace it starts from.\<close>

definition new_calls :: "'a io \<Rightarrow> call list \<Rightarrow> call list" where
  "new_calls m t = drop (length t) (snd (m t))"

fun is_http_request :: "call \<Rightarrow> bool" where
  "is_http_request (HttpRequest m u b h) = True"
| "is_http_request _ = False"

fun is_put_item :: "call \<Rightarrow> bool" where
  "is_put_item (PutItem n i) = True"
| "is_put_item _ = False"

fun is_publish :: "call \<Rightarrow> bool" where
  "is_publish (Publish a s m) = True"
| "is_publish _ = False"

fun is_chat_create :: "call \<Rightarrow> bool" where
  "is_chat_create (ChatCompletionsCreate c m ms) = True"
| "is_chat_create _ = False"

fun is_log :: "call \<Rightarrow> bool" where
  "is_log (Print m args) = True"
| "is_log (PrintExc e) = True"
| "is_log _ = False"

text \<open>The entry of a dict under a key, if any.\<close>

fun dict_get :: "pyval \<Rightarrow> str \<Rightarrow> pyval option" where
  "dict_get (PDict kvs) k = map_of kvs k"
| "dict_get _ k = None"

text \<open>
  The message content of the first choice of a response, when the response has
  choices, and the content is a non-empty string.
\<close>

definition response_content :: "chat_completion \<Rightarrow> str option" where
  "response_content resp =
     (case choices resp of
        Some (c # cs) \<Rightarrow>
          (case message c of
             Some m \<Rightarrow> (case content m of Some s \<Rightarrow> if s \<noteq> [] then Some s else None | None \<Rightarrow> None)
           | None \<Rightarrow> None)
      | _ \<Rightarrow> None)"

text \<open>
  \<open>only P m\<close>: from every trace, the computation \<open>m\<close> extends the trace, and by calls
  that satisfy \<open>P\<close> only.
\<close>

definition only :: "(call \<Rightarrow> bool) \<Rightarrow> 'a io \<Rightarrow> bool" where
  "only P m \<longleftrightarrow> (\<forall>t. \<exists>new. snd (m t) = t @ new \<and> list_all P new)"

section \<open>Example worlds\<close>

text \<open>
  A world in which every service answers, one in which the inference endpoint always
  fails, and an environment with the three configuration variables set.
\<close>

definition world_ok :: world where
  "world_ok =
     \<lparr>ssm_get_parameter = (\<lambda>t name decrypt. Inr (lit ''sk-1'')),
      chat_completions_create = (\<lambda>t client model messages.
        Inr (ChatCompletion (Some [Choice (Some (ChatMessage (Some (lit ''Bref.''))))]))),
      http_request = (\<lambda>t method url body headers. Inr 200),
      s3_put_bucket_policy = (\<lambda>t bucket policy. Inr ()),
      s3_delete_bucket_policy = (\<lambda>t bucket. Inr ()),
      s3_get_object = (\<lambda>t bucket key. Inr (map of_nat (lit ''hello world''))),
      table_put_item = (\<lambda>t table item. Inr ()),
      sns_publish = (\<lambda>t topic subject message. Inr ()),
      str_of_exn = (\<lambda>e. lit ''error''),
      repr = (\<lambda>v. lit ''[...]'')\<rparr>"

definition world_llm_down :: world where
  "world_llm_down =
     world_ok\<lparr>chat_completions_create :=
       (\<lambda>t client model messages. Inl (ClientError (lit ''rate limited'')))\<rparr>"

definition environ_full :: "str \<rightharpoonup> str" where
  "environ_full =
     [lit ''OPENROUTER_API_KEY_PARAM'' \<mapsto> lit ''/openrouter/key'',
      lit ''TABLE_NAME'' \<mapsto> lit ''summaries'',
      lit ''TOPIC_ARN'' \<mapsto> lit ''arn:topic'']"

text \<open>
  The feature flags all on; a world in which the removal of a bucket policy fails; and
  provisioning events: a removal and a creation as the orchestrator sends them, a removal
  and a creation that lack the stack, request and logical resource identifiers, and an
  event whose request type is none of Create, Update and Delete.
\<close>

definition flags_on :: flags where
  "flags_on = \<lparr>ENABLE_OPENROUTER = True, ENABLE_DYNAMODB = True, ENABLE_SNS = True\<rparr>"

definition world_delete_fails :: world where
  "world_delete_fails =
     world_ok\<lparr>s3_delete_bucket_policy := (\<lambda>t bucket. Inl (ClientError (lit ''NoSuchBucketPolicy'')))\<rparr>"

definition delete_event :: pyval where
  "delete_event =
     PDict [(lit ''RequestType'', PStr (lit ''Delete'')),
            (lit ''ResourceProperties'', PDict [(lit ''BucketName'', PStr (lit ''b1''))]),
            (lit ''ResponseURL'', PStr (lit ''http://x'')),
            (lit ''StackId'', PStr (lit ''stack-1'')),
            (lit ''RequestId'', PStr (lit ''req-1'')),
            (lit ''LogicalResourceId'', PStr (lit ''BucketPolicy''))]"

definition create_event :: pyval where
  "create_event =
     PDict [(lit ''RequestType'', PStr (lit ''Create'')),
            (lit ''ResourceProperties'',
               PDict [(lit ''BucketName'', PStr (lit ''b1'')), (lit ''PolicyDocument'', PDict [])]),
            (lit ''ResponseURL'', PStr (lit ''http://x'')),
            (lit ''StackId'', PStr (lit ''stack-1'')),
            (lit ''RequestId'', PStr (lit ''req-1'')),
            (lit ''LogicalResourceId'', PStr (lit ''BucketPolicy''))]"

definition delete_event_without_ids :: pyval where
  "delete_event_without_ids =
     PDict [(lit ''RequestType'', PStr (lit ''Delete'')),
            (lit ''ResourceProperties'', PDict [(lit ''BucketName'', PStr (lit ''b1''))]),
            (lit ''ResponseURL'', PStr (lit ''http://x''))]"

definition rollback_event :: pyval where
  "rollback_event =
     PDict [(lit ''RequestType'', PStr (lit ''Rollback'')),
            (lit ''ResourceProperties'', PDict [(lit ''BucketName'', PStr (lit ''b1''))]),
            (lit ''ResponseURL'', PStr (lit ''http://x'')),
            (lit ''StackId'', PStr (lit ''stack-1'')),
            (lit ''RequestId'', PStr (lit ''req-1'')),
            (lit ''LogicalResourceId'', PStr (lit ''BucketPolicy''))]"

definition create_event_without_ids :: pyval where
  "create_event_without_ids =
     PDict [(lit ''RequestType'', PStr (lit ''Create'')),
            (lit ''ResourceProperties'',
               PDict [(lit ''BucketName'', PStr (lit ''b1'')), (lit ''PolicyDocument'', PDict [])]),
            (lit ''ResponseURL'', PStr (lit ''http://x''))]"

text \<open>
  The storage event of the specification's scenario, and the flags with summarization
  off.
\<close>

definition s3_event :: pyval where
  "s3_event =
     PDict [(lit ''Records'',
       PList [PDict [(lit ''s3'',
         PDict [(lit ''bucket'', PDict [(lit ''name'', PStr (lit ''b1''))]),
                (lit ''object'', PDict [(lit ''key'', PStr (lit ''k1.txt''))])])]])]"



section \<open>Lemmas on the library functions\<close>

lemma lit_eq_iff [simp]: "lit a = lit b \<longleftrightarrow> a = b"
  unfolding lit_def by (simp add: inj_map_eq_map inj_on_def)

lemma lit_Nil_iff [simp]: "lit a = [] \<longleftrightarrow> a = []"
  by (simp add: lit_def)

lemma length_lit [simp]: "length (lit a) = length a"
  by (simp add: lit_def)

lemma digit_char_ascii: "d < 16 \<Longrightarrow> digit_char d < 128"
  by (simp add: digit_char_def)

lemma decimal_nat_ascii: "c \<in> set (decimal_nat n) \<Longrightarrow> c < 128"
proof (induction n arbitrary: c rule: decimal_nat.induct)
  case (1 n)
  show ?case
  proof (cases "n < 10")
    case True
    with "1.prems" show ?thesis
      by (subst (asm) decimal_nat.simps) (simp add: digit_char_def)
  next
    case False
    with "1.prems" have "c \<in> set (decimal_nat (n div 10)) \<or> c = digit_char (n mod 10)"
      by (subst (asm) decimal_nat.simps) auto
    then show ?thesis
    proof
      assume "c \<in> set (decimal_nat (n div 10))"
      with "1.IH" False show ?thesis by blast
    next
      assume "c = digit_char (n mod 10)"
      then show ?thesis by (simp add: digit_char_def)
    qed
  qed
qed

lemma decimal_ascii: "c \<in> set (decimal i) \<Longrightarrow> c < 128"
  by (auto simp: decimal_def dest: decimal_nat_ascii split: if_splits)

lemma hex4_ascii: "c \<in> set (hex4 n) \<Longrightarrow> c < 128"
  by (auto simp: hex4_def digit_char_def)

lemma json_escape_char_ascii: "c \<in> set (json_escape_char n) \<Longrightarrow> c < 128"
  by (auto simp: json_escape_char_def dest: hex4_ascii split: if_splits)

lemma json_string_ascii: "c \<in> set (json_string s) \<Longrightarrow> c < 128"
  by (auto simp: json_string_def dest: json_escape_char_ascii)

lemma join_ascii:
  "(\<And>x c. x \<in> set xs \<Longrightarrow> c \<in> set x \<Longrightarrow> c < 128) \<Longrightarrow> c \<in> set (join [44, 32] xs) \<Longrightarrow> c < (128::nat)"
  by (induction "[44, 32::nat]" xs rule: join.induct) auto

lemma json_dumps_ascii: "c \<in> set (json_dumps v) \<Longrightarrow> c < 128"
proof (induction v arbitrary: c rule: json_dumps.induct)
  case 1 then show ?case by (auto simp: lit_def)
next
  case (2 b) then show ?case by (auto simp: lit_def split: if_splits)
next
  case (3 i) then show ?case by (auto dest: decimal_ascii)
next
  case (4 s) then show ?case by (auto dest: json_string_ascii)
next
  case (5 xs)
  from "5.prems" have "c = 91 \<or> c = 93 \<or> c \<in> set (join [44, 32] (map json_dumps xs))" by auto
  moreover have "c \<in> set (join [44, 32] (map json_dumps xs)) \<Longrightarrow> c < 128"
    by (rule join_ascii[where xs="map json_dumps xs"]) (auto dest: "5.IH")
  ultimately show ?case by auto
next
  case (6 kvs)
  from "6.prems" have "c = 123 \<or> c = 125 \<or>
      c \<in> set (join [44, 32] (map (\<lambda>(k, v). json_string k @ [58, 32] @ json_dumps v) kvs))" by auto
  moreover have "c \<in> set (join [44, 32] (map (\<lambda>(k, v). json_string k @ [58, 32] @ json_dumps v) kvs)) \<Longrightarrow> c < 128"
    by (rule join_ascii[where xs="map (\<lambda>(k, v). json_string k @ [58, 32] @ json_dumps v) kvs"])
       (auto dest: "6.IH" json_string_ascii)
  ultimately show ?case by auto
qed

lemma utf8_encode_ascii: "(\<And>c. c \<in> set s \<Longrightarrow> c < 128) \<Longrightarrow> utf8_encode s = Inr (map of_nat s)"
  by (induction s) (auto simp: utf8_encode_char_def)

lemma utf8_encode_json_dumps: "utf8_encode (json_dumps v) = Inr (map of_nat (json_dumps v))"
  by (rule utf8_encode_ascii) (rule json_dumps_ascii)

section \<open>Lemmas on computations\<close>

lemmas io_defs = return_def raise_def lift_def bind_def seq_def try_except_def perform_def
  print_def print_exc_def

lemma onlyE:
  assumes "only P m"
  obtains new where "snd (m t) = t @ new" and "list_all P new"
  using assms unfolding only_def by blast

lemma only_return: "only P (return x)"
  by (simp add: only_def return_def)

lemma only_raise: "only P (raise e)"
  by (simp add: only_def raise_def)

lemma only_lift: "only P (lift r)"
  by (simp add: only_def lift_def)

lemma only_perform: "P c \<Longrightarrow> only P (perform c a)"
  by (simp add: only_def perform_def)

lemma only_print: "P (Print m args) \<Longrightarrow> only P (print m args)"
  by (simp add: print_def only_perform)

lemma only_print_exc: "P (PrintExc e) \<Longrightarrow> only P (print_exc e)"
  by (simp add: print_exc_def only_perform)

lemma only_bind:
  assumes "only P m" and "\<And>x. only P (f x)"
  shows "only P (bind m f)"
  unfolding only_def
proof
  fix t
  obtain r t' where mt: "m t = (r, t')" by (cases "m t")
  from assms(1) obtain n1 where n1: "snd (m t) = t @ n1" "list_all P n1" by (rule onlyE)
  from mt n1 have t': "t' = t @ n1" by simp
  show "\<exists>new. snd (bind m f t) = t @ new \<and> list_all P new"
  proof (cases r)
    case (Inl e)
    with mt t' n1 show ?thesis by (simp add: bind_def)
  next
    case (Inr x)
    from assms(2) obtain n2 where n2: "snd (f x t') = t' @ n2" "list_all P n2" by (rule onlyE)
    have "snd (bind m f t) = t @ (n1 @ n2)" using mt Inr n2 t' by (simp add: bind_def)
    moreover have "list_all P (n1 @ n2)" using n1 n2 by simp
    ultimately show ?thesis by blast
  qed
qed

lemma only_seq: "only P m \<Longrightarrow> only P n \<Longrightarrow> only P (seq m n)"
  by (simp add: seq_def only_bind)

lemma only_try_except:
  assumes "only P m" and "\<And>e. only P (h e)"
  shows "only P (try_except m h)"
  unfolding only_def
proof
  fix t
  obtain r t' where mt: "m t = (r, t')" by (cases "m t")
  from assms(1) obtain n1 where n1: "snd (m t) = t @ n1" "list_all P n1" by (rule onlyE)
  from mt n1 have t': "t' = t @ n1" by simp
  show "\<exists>new. snd (try_except m h t) = t @ new \<and> list_all P new"
  proof (cases r)
    case (Inr x)
    with mt t' n1 show ?thesis by (simp add: try_except_def)
  next
    case (Inl e)
    from assms(2) obtain n2 where n2: "snd (h e t') = t' @ n2" "list_all P n2" by (rule onlyE)
    have "snd (try_except m h t) = t @ (n1 @ n2)" using mt Inl n2 t' by (simp add: try_except_def)
    moreover have "list_all P (n1 @ n2)" using n1 n2 by simp
    ultimately show ?thesis by blast
  qed
qed

lemma retry_3_unroll:
  "retry 3 wait f t =
     (case f t of
        (Inr r, t1) \<Rightarrow> (Inr r, t1)
      | (Inl e1, t1) \<Rightarrow>
          (case f (t1 @ [Sleep wait]) of
             (Inr r, t2) \<Rightarrow> (Inr r, t2)
           | (Inl e2, t2) \<Rightarrow>
               (case f (t2 @ [Sleep wait]) of
                  (Inr r, t3) \<Rightarrow> (Inr r, t3)
                | (Inl e3, t3) \<Rightarrow> (Inl (RetryError e3), t3))))"
proof -
  have three: "retry_loop 3 wait f 3 s =
      (case f s of (Inr r, t3) \<Rightarrow> (Inr r, t3) | (Inl e3, t3) \<Rightarrow> (Inl (RetryError e3), t3))" for s
    by (subst retry_loop.simps) (simp split: prod.splits sum.splits)
  have two: "retry_loop 3 wait f 2 s =
      (case f s of (Inr r, t2) \<Rightarrow> (Inr r, t2)
       | (Inl e2, t2) \<Rightarrow> retry_loop 3 wait f 3 (t2 @ [Sleep wait]))" for s
    by (subst retry_loop.simps) (simp split: prod.splits sum.splits add: eval_nat_numeral)
  have one: "retry_loop 3 wait f 1 s =
      (case f s of (Inr r, t1) \<Rightarrow> (Inr r, t1)
       | (Inl e1, t1) \<Rightarrow> retry_loop 3 wait f 2 (t1 @ [Sleep wait]))" for s
    by (subst retry_loop.simps) (simp split: prod.splits sum.splits add: eval_nat_numeral)
  show ?thesis
    unfolding retry_def one two three ..
qed

lemma call_openrouter_attempt_eq:
  "call_openrouter_attempt w environ text t =
     (case environ (lit ''OPENROUTER_API_KEY_PARAM'') of
        None \<Rightarrow>
          (Inl (KeyError (PStr (lit ''OPENROUTER_API_KEY_PARAM''))),
           t @ [Print ''Failed to retrieve OpenRouter API key''
                  [LExn (KeyError (PStr (lit ''OPENROUTER_API_KEY_PARAM'')))]])
      | Some name \<Rightarrow>
          (case ssm_get_parameter w t name True of
             Inl e \<Rightarrow>
               (Inl e, t @ [SsmGetParameter name True,
                            Print ''Failed to retrieve OpenRouter API key'' [LExn e]])
           | Inr k \<Rightarrow>
               (let client = OpenAI (lit ''https://openrouter.ai/api/v1'') k;
                    model = lit ''mistralai/devstral-small-2505:free'';
                    messages = PList [PDict [(lit ''role'', PStr (lit ''user'')),
                                 (lit ''content'', PStr (summary_prompt @ take 1000 text))]]
                in (chat_completions_create w (t @ [SsmGetParameter name True]) client model messages,
                    t @ [SsmGetParameter name True, ChatCompletionsCreate client model messages]))))"
  by (simp add: call_openrouter_attempt_def get_openrouter_client_def get_api_key_def
      environ_getitem_def io_defs Let_def split: option.splits sum.splits)

lemma call_openrouter_attempt_calls:
  "\<exists>new. snd (call_openrouter_attempt w environ text t) = t @ new
     \<and> length (filter is_chat_create new) \<le> 1"
  by (simp add: call_openrouter_attempt_eq Let_def split: option.splits sum.splits)

lemma new_calls_append: "snd (m t) = t @ new \<Longrightarrow> new_calls m t = new"
  by (simp add: new_calls_def)

lemma retry_3_count:
  assumes f: "\<And>s. \<exists>new. snd (f s) = s @ new \<and> length (filter P new) \<le> 1"
    and sleep: "\<not> P (Sleep wait)"
  shows "\<exists>new. snd (retry 3 wait f t) = t @ new \<and> length (filter P new) \<le> 3"
proof -
  obtain r1 t1 where f1: "f t = (r1, t1)" by (cases "f t")
  obtain r2 t2 where f2: "f (t1 @ [Sleep wait]) = (r2, t2)" by (cases "f (t1 @ [Sleep wait])")
  obtain r3 t3 where f3: "f (t2 @ [Sleep wait]) = (r3, t3)" by (cases "f (t2 @ [Sleep wait])")
  from f[of t] f1 obtain n1 where n1: "t1 = t @ n1" "length (filter P n1) \<le> 1" by auto
  from f[of "t1 @ [Sleep wait]"] f2 obtain n2
    where n2: "t2 = t1 @ [Sleep wait] @ n2" "length (filter P n2) \<le> 1" by auto
  from f[of "t2 @ [Sleep wait]"] f3 obtain n3
    where n3: "t3 = t2 @ [Sleep wait] @ n3" "length (filter P n3) \<le> 1" by auto
  have "snd (retry 3 wait f t) = t1 \<or> snd (retry 3 wait f t) = t2 \<or> snd (retry 3 wait f t) = t3"
    unfolding retry_3_unroll using f1 f2 f3 by (simp split: sum.splits)
  moreover have "t1 = t @ n1 \<and> length (filter P n1) \<le> 3" using n1 by simp
  moreover have "t2 = t @ (n1 @ [Sleep wait] @ n2) \<and> length (filter P (n1 @ [Sleep wait] @ n2)) \<le> 3"
    using n1 n2 sleep by simp
  moreover have "t3 = t @ (n1 @ [Sleep wait] @ n2 @ [Sleep wait] @ n3)
      \<and> length (filter P (n1 @ [Sleep wait] @ n2 @ [Sleep wait] @ n3)) \<le> 3"
    using n1 n2 n3 sleep by simp
  ultimately show ?thesis by blast
qed

lemma attempt_llm_down:
  "call_openrouter_attempt world_llm_down environ_full text t =
     (Inl (ClientError (lit ''rate limited'')),
      t @ [SsmGetParameter (lit ''/openrouter/key'') True,
           ChatCompletionsCreate (OpenAI (lit ''https://openrouter.ai/api/v1'') (lit ''sk-1''))
             (lit ''mistralai/devstral-small-2505:free'')
             (PList [PDict [(lit ''role'', PStr (lit ''user'')),
                            (lit ''content'', PStr (summary_prompt @ take 1000 text))]])])"
  by (simp add: call_openrouter_attempt_eq world_llm_down_def world_ok_def environ_full_def)

section \<open>Lemmas on the provisioning flow\<close>

lemma py_getitem_str_Inr:
  "py_getitem v (PStr k) = Inr x \<Longrightarrow> \<exists>kvs. v = PDict kvs \<and> map_of kvs k = Some x"
  by (cases v) (auto split: option.splits)

lemma dict_get_Some:
  assumes "dict_get v k = Some x"
  shows "py_getitem v (PStr k) = Inr x" and "py_get v k d = Inr x"
  using assms by (cases v; simp)+

lemma response_body_Inr:
  assumes "py_getitem event (PStr (lit ''StackId'')) = Inr sid"
    and "py_getitem event (PStr (lit ''RequestId'')) = Inr rid"
    and "py_getitem event (PStr (lit ''LogicalResourceId'')) = Inr lid"
  shows "response_body event ctx status d =
     Inr (PDict
       [(lit ''Status'', PStr status),
        (lit ''Reason'', PStr (lit ''See CloudWatch Log Stream: '' @ log_stream_name ctx)),
        (lit ''PhysicalResourceId'',
           case dict_get event (lit ''PhysicalResourceId'') of
             None \<Rightarrow> PStr (log_stream_name ctx) | Some v \<Rightarrow> v),
        (lit ''StackId'', sid),
        (lit ''RequestId'', rid),
        (lit ''LogicalResourceId'', lid),
        (lit ''Data'', d)])"
proof -
  from assms(1) obtain kvs where "event = PDict kvs" by (auto dest: py_getitem_str_Inr)
  with assms show ?thesis
    by (simp add: response_body_def sbind_def split: option.splits)
qed

lemma response_body_fields:
  assumes "response_body event ctx status d = Inr payload"
  shows "dict_get payload (lit ''Status'') = Some (PStr status)
     \<and> dict_get payload (lit ''Reason'')
         = Some (PStr (lit ''See CloudWatch Log Stream: '' @ log_stream_name ctx))
     \<and> dict_get payload (lit ''PhysicalResourceId'')
         = Some (case dict_get event (lit ''PhysicalResourceId'') of
                   None \<Rightarrow> PStr (log_stream_name ctx) | Some v \<Rightarrow> v)
     \<and> dict_get payload (lit ''StackId'') = dict_get event (lit ''StackId'')
     \<and> dict_get payload (lit ''RequestId'') = dict_get event (lit ''RequestId'')
     \<and> dict_get payload (lit ''LogicalResourceId'') = dict_get event (lit ''LogicalResourceId'')
     \<and> dict_get payload (lit ''Data'') = Some d"
  using assms
  by (cases event) (auto simp: response_body_def sbind_def split: option.splits sum.splits)

lemma send_cfn_response_eq:
  "send_cfn_response w event ctx status d t =
     (case response_body event ctx status (if d = PNone then PDict [] else d) of
        Inl e \<Rightarrow> (Inl e, t)
      | Inr payload \<Rightarrow>
          (case py_getitem event (PStr (lit ''ResponseURL'')) of
             Inl e \<Rightarrow>
               (Inr False,
                t @ [Print ''Failed to send CloudFormation response'' [LExn e], PrintExc e])
           | Inr url \<Rightarrow>
               (case http_request w t (lit ''PUT'') url (map of_nat (json_dumps payload))
                       (put_headers (json_dumps payload)) of
                  Inl e \<Rightarrow>
                    (Inr False,
                     t @ [HttpRequest (lit ''PUT'') url (map of_nat (json_dumps payload))
                            (put_headers (json_dumps payload)),
                          Print ''Failed to send CloudFormation response'' [LExn e], PrintExc e])
                | Inr st \<Rightarrow>
                    (Inr True,
                     t @ [HttpRequest (lit ''PUT'') url (map of_nat (json_dumps payload))
                            (put_headers (json_dumps payload)),
                          Print ''CloudFormation response sent. Status'' [LNat st]]))))"
  by (simp add: send_cfn_response_def io_defs utf8_encode_json_dumps Let_def split: sum.splits)

lemma send_cfn_response_put:
  assumes "py_getitem event (PStr (lit ''StackId'')) = Inr sid"
    and "py_getitem event (PStr (lit ''RequestId'')) = Inr rid"
    and "py_getitem event (PStr (lit ''LogicalResourceId'')) = Inr lid"
    and "py_getitem event (PStr (lit ''ResponseURL'')) = Inr url"
    and "d \<noteq> PNone"
  shows "\<exists>payload ok rest.
     response_body event ctx status d = Inr payload
     \<and> send_cfn_response w event ctx status d s =
         (Inr ok, s @ HttpRequest (lit ''PUT'') url (map of_nat (json_dumps payload))
                        (put_headers (json_dumps payload)) # rest)
     \<and> filter is_http_request rest = []"
  using assms(4,5)
  by (auto simp: send_cfn_response_eq response_body_Inr[OF assms(1,2,3)] split: sum.splits)

lemma apply_bucket_policy_one_put:
  assumes rt: "py_getitem event (PStr (lit ''RequestType'')) = Inr rt"
    and rt3: "rt = PStr (lit ''Create'') \<or> rt = PStr (lit ''Update'') \<or> rt = PStr (lit ''Delete'')"
    and props: "py_getitem event (PStr (lit ''ResourceProperties'')) = Inr (PDict props)"
    and bucket: "map_of props (lit ''BucketName'') = Some bucket"
    and sid: "py_getitem event (PStr (lit ''StackId'')) = Inr sid"
    and rid: "py_getitem event (PStr (lit ''RequestId'')) = Inr rid"
    and lid: "py_getitem event (PStr (lit ''LogicalResourceId'')) = Inr lid"
    and url: "py_getitem event (PStr (lit ''ResponseURL'')) = Inr url"
  shows "\<exists>status data payload pre rest.
     (status = lit ''SUCCESS'' \<or> status = lit ''FAILED'')
     \<and> (rt = PStr (lit ''Delete'') \<longrightarrow>
           status = lit ''SUCCESS'' \<and> DeleteBucketPolicy bucket \<in> set pre
           \<and> (\<forall>e. s3_delete_bucket_policy w (t @ [Print ''Custom resource event'' [LVal rt]]) bucket
                    = Inl e \<longrightarrow> Print ''Could not remove bucket policy'' [LExn e] \<in> set pre))
     \<and> response_body event ctx status data = Inr payload
     \<and> apply_bucket_policy w event ctx t =
         (Inr (), t @ pre @ HttpRequest (lit ''PUT'') url (map of_nat (json_dumps payload))
                        (put_headers (json_dumps payload)) # rest)
     \<and> filter is_http_request pre = [] \<and> filter is_http_request rest = []"
proof -
  note send = send_cfn_response_put[OF sid rid lid url]
  let ?t1 = "t @ [Print ''Custom resource event'' [LVal rt]]"
  show ?thesis
  proof (cases "rt = PStr (lit ''Delete'')")
    case True
    let ?d = "PDict [(lit ''Message'', PStr (lit ''Bucket policy removal completed for '' @ py_str (repr w) bucket))]"
    let ?pre = "[Print ''Custom resource event'' [LVal rt], DeleteBucketPolicy bucket,
        (case s3_delete_bucket_policy w ?t1 bucket of
           Inl e \<Rightarrow> Print ''Could not remove bucket policy'' [LExn e]
         | Inr u \<Rightarrow> Print ''Removed bucket policy from'' [LVal bucket])]"
    from send[of ?d ctx "lit ''SUCCESS''" w "t @ ?pre"]
    obtain payload ok rest where p: "response_body event ctx (lit ''SUCCESS'') ?d = Inr payload"
      and s: "send_cfn_response w event ctx (lit ''SUCCESS'') ?d (t @ ?pre) =
         (Inr ok, (t @ ?pre) @ HttpRequest (lit ''PUT'') url (map of_nat (json_dumps payload))
                        (put_headers (json_dumps payload)) # rest)"
      and r: "filter is_http_request rest = []" by auto
    have "apply_bucket_policy w event ctx t =
         (Inr (), t @ ?pre @ HttpRequest (lit ''PUT'') url (map of_nat (json_dumps payload))
                        (put_headers (json_dumps payload)) # rest)"
      using True rt props bucket s
      by (simp add: apply_bucket_policy_def io_defs sbind_def split: sum.splits)
    moreover have "filter is_http_request ?pre = []" by (simp split: sum.splits)
    moreover have "DeleteBucketPolicy bucket \<in> set ?pre" by simp
    moreover have "\<forall>e. s3_delete_bucket_policy w ?t1 bucket = Inl e
        \<longrightarrow> Print ''Could not remove bucket policy'' [LExn e] \<in> set ?pre" by simp
    ultimately show ?thesis using p r by blast
  next
    case False
    with rt3 have cu: "rt = PStr (lit ''Create'') \<or> rt = PStr (lit ''Update'')" by blast
    show ?thesis
    proof (cases "map_of props (lit ''PolicyDocument'')")
      case None
      let ?e = "KeyError (PStr (lit ''PolicyDocument''))"
      let ?d = "PDict [(lit ''Error'', PStr (str_of_exn w ?e))]"
      let ?pre = "[Print ''Custom resource event'' [LVal rt],
                   Print ''Error in bucket policy operation'' [LExn ?e], PrintExc ?e]"
      from send[of ?d ctx "lit ''FAILED''" w "t @ ?pre"]
      obtain payload ok rest where p: "response_body event ctx (lit ''FAILED'') ?d = Inr payload"
        and s: "send_cfn_response w event ctx (lit ''FAILED'') ?d (t @ ?pre) =
           (Inr ok, (t @ ?pre) @ HttpRequest (lit ''PUT'') url (map of_nat (json_dumps payload))
                          (put_headers (json_dumps payload)) # rest)"
        and r: "filter is_http_request rest = []" by auto
      have "apply_bucket_policy w event ctx t =
           (Inr (), t @ ?pre @ HttpRequest (lit ''PUT'') url (map of_nat (json_dumps payload))
                          (put_headers (json_dumps payload)) # rest)"
        using cu None rt props bucket s
        by (auto simp: apply_bucket_policy_def io_defs sbind_def Let_def)
      moreover have "filter is_http_request ?pre = []" by simp
      ultimately show ?thesis using p r False by blast
    next
      case (Some pd)
      let ?put = "PutBucketPolicy bucket (json_dumps pd)"
      show ?thesis
      proof (cases "s3_put_bucket_policy w ?t1 bucket (json_dumps pd)")
        case (Inl e)
        let ?d = "PDict [(lit ''Error'', PStr (str_of_exn w e))]"
        let ?pre = "[Print ''Custom resource event'' [LVal rt], ?put,
                     Print ''Error in bucket policy operation'' [LExn e], PrintExc e]"
        from send[of ?d ctx "lit ''FAILED''" w "t @ ?pre"]
        obtain payload ok rest where p: "response_body event ctx (lit ''FAILED'') ?d = Inr payload"
          and s: "send_cfn_response w event ctx (lit ''FAILED'') ?d (t @ ?pre) =
             (Inr ok, (t @ ?pre) @ HttpRequest (lit ''PUT'') url (map of_nat (json_dumps payload))
                            (put_headers (json_dumps payload)) # rest)"
          and r: "filter is_http_request rest = []" by auto
        have "apply_bucket_policy w event ctx t =
             (Inr (), t @ ?pre @ HttpRequest (lit ''PUT'') url (map of_nat (json_dumps payload))
                            (put_headers (json_dumps payload)) # rest)"
          using cu Some Inl rt props bucket s
          by (auto simp: apply_bucket_policy_def io_defs sbind_def Let_def)
        moreover have "filter is_http_request ?pre = []" by simp
        ultimately show ?thesis using p r False by blast
      next
        case (Inr u)
        let ?d = "PDict [(lit ''Message'', PStr (lit ''Bucket policy applied successfully to '' @ py_str (repr w) bucket))]"
        let ?pre = "[Print ''Custom resource event'' [LVal rt], ?put,
                     Print ''Applied bucket policy to'' [LVal bucket]]"
        from send[of ?d ctx "lit ''SUCCESS''" w "t @ ?pre"]
        obtain payload ok rest where p: "response_body event ctx (lit ''SUCCESS'') ?d = Inr payload"
          and s: "send_cfn_response w event ctx (lit ''SUCCESS'') ?d (t @ ?pre) =
             (Inr ok, (t @ ?pre) @ HttpRequest (lit ''PUT'') url (map of_nat (json_dumps payload))
                            (put_headers (json_dumps payload)) # rest)"
          and r: "filter is_http_request rest = []" by auto
        have "apply_bucket_policy w event ctx t =
             (Inr (), t @ ?pre @ HttpRequest (lit ''PUT'') url (map of_nat (json_dumps payload))
                            (put_headers (json_dumps payload)) # rest)"
          using cu Some Inr rt props bucket s
          by (auto simp: apply_bucket_policy_def io_defs sbind_def Let_def)
        moreover have "filter is_http_request ?pre = []" by simp
        ultimately show ?thesis using p r False by blast
      qed
    qed
  qed
qed

lemma is_custom_resource_event_True:
  assumes "dict_get event (lit ''RequestType'') = Some rt" and "truthy rt"
    and "dict_get event (lit ''ResourceProperties'') = Some (PDict props)"
    and "map_of props (lit ''BucketName'') = Some bucket"
  shows "is_custom_resource_event event = Inr True"
  using assms
  by (cases event) (auto simp: is_custom_resource_event_def sbind_def)

lemma handler_custom:
  assumes "is_custom_resource_event event = Inr True"
  shows "lambda_handler w fl environ event ctx t =
    (case apply_bucket_policy w event ctx
            (t @ [Print ''Received event'' [LStr (json_dumps event)]]) of
       (Inl e, t') \<Rightarrow> (Inr failure_result, t' @ [Print ''General error'' [LExn e], PrintExc e])
     | (Inr u, t') \<Rightarrow> (Inr PNone, t'))"
  by (simp add: lambda_handler_def io_defs assms split: prod.splits sum.splits)

lemma handler_provisioning:
  assumes rt: "dict_get event (lit ''RequestType'') = Some rt"
    and rt3: "rt = PStr (lit ''Create'') \<or> rt = PStr (lit ''Update'') \<or> rt = PStr (lit ''Delete'')"
    and props: "dict_get event (lit ''ResourceProperties'') = Some (PDict props)"
    and bucket: "map_of props (lit ''BucketName'') = Some bucket"
    and sid: "dict_get event (lit ''StackId'') = Some sid"
    and rid: "dict_get event (lit ''RequestId'') = Some rid"
    and lid: "dict_get event (lit ''LogicalResourceId'') = Some lid"
    and url: "dict_get event (lit ''ResponseURL'') = Some url"
  shows "\<exists>status data payload pre rest.
     (status = lit ''SUCCESS'' \<or> status = lit ''FAILED'')
     \<and> (rt = PStr (lit ''Delete'') \<longrightarrow>
           status = lit ''SUCCESS'' \<and> DeleteBucketPolicy bucket \<in> set pre
           \<and> (\<forall>e. s3_delete_bucket_policy w
                     (t @ [Print ''Received event'' [LStr (json_dumps event)],
                           Print ''Custom resource event'' [LVal rt]]) bucket = Inl e
                 \<longrightarrow> Print ''Could not remove bucket policy'' [LExn e] \<in> set pre))
     \<and> response_body event ctx status data = Inr payload
     \<and> lambda_handler w fl environ event ctx t =
         (Inr PNone, t @ pre @ HttpRequest (lit ''PUT'') url (map of_nat (json_dumps payload))
                        (put_headers (json_dumps payload)) # rest)
     \<and> filter is_http_request pre = [] \<and> filter is_http_request rest = []"
proof -
  let ?t0 = "t @ [Print ''Received event'' [LStr (json_dumps event)]]"
  from rt3 have tr: "truthy rt" by auto
  note custom = is_custom_resource_event_True[OF rt tr props bucket]
  from apply_bucket_policy_one_put[OF dict_get_Some(1)[OF rt] rt3 dict_get_Some(1)[OF props] bucket
      dict_get_Some(1)[OF sid] dict_get_Some(1)[OF rid] dict_get_Some(1)[OF lid]
      dict_get_Some(1)[OF url], where w=w and t="?t0" and ctx=ctx]
  obtain status data payload pre rest where
    st: "status = lit ''SUCCESS'' \<or> status = lit ''FAILED''"
    and del: "rt = PStr (lit ''Delete'') \<longrightarrow>
           status = lit ''SUCCESS'' \<and> DeleteBucketPolicy bucket \<in> set pre
           \<and> (\<forall>e. s3_delete_bucket_policy w (?t0 @ [Print ''Custom resource event'' [LVal rt]]) bucket
                    = Inl e \<longrightarrow> Print ''Could not remove bucket policy'' [LExn e] \<in> set pre)"
    and rb: "response_body event ctx status data = Inr payload"
    and ap: "apply_bucket_policy w event ctx ?t0 =
         (Inr (), ?t0 @ pre @ HttpRequest (lit ''PUT'') url (map of_nat (json_dumps payload))
                        (put_headers (json_dumps payload)) # rest)"
    and pre: "filter is_http_request pre = []" and rest: "filter is_http_request rest = []"
    by blast
  let ?pre = "Print ''Received event'' [LStr (json_dumps event)] # pre"
  have "lambda_handler w fl environ event ctx t =
         (Inr PNone, t @ ?pre @ HttpRequest (lit ''PUT'') url (map of_nat (json_dumps payload))
                        (put_headers (json_dumps payload)) # rest)"
    by (simp add: handler_custom[OF custom] ap)
  moreover have "filter is_http_request ?pre = []" using pre by simp
  moreover have "rt = PStr (lit ''Delete'') \<longrightarrow>
           status = lit ''SUCCESS'' \<and> DeleteBucketPolicy bucket \<in> set ?pre
           \<and> (\<forall>e. s3_delete_bucket_policy w
                     (t @ [Print ''Received event'' [LStr (json_dumps event)],
                           Print ''Custom resource event'' [LVal rt]]) bucket = Inl e
                 \<longrightarrow> Print ''Could not remove bucket policy'' [LExn e] \<in> set ?pre)"
    using del by simp
  ultimately show ?thesis using st rb rest by blast
qed

section \<open>Lemmas on the ingestion flow\<close>

lemma only_retry_loop:
  assumes "only P f" and "P (Sleep wait)"
  shows "\<exists>new. snd (retry_loop stop wait f n t) = t @ new \<and> list_all P new"
  using assms
proof (induction stop wait f n t rule: retry_loop.induct)
  case (1 stop wait f n t)
  obtain r t' where ft: "f t = (r, t')" by (cases "f t")
  from "1.prems"(1) obtain n1 where n1: "snd (f t) = t @ n1" "list_all P n1" by (rule onlyE)
  from ft n1 have t': "t' = t @ n1" by simp
  show ?case
  proof (cases r)
    case (Inr x)
    with ft t' n1 show ?thesis by (subst retry_loop.simps) simp
  next
    case (Inl e)
    show ?thesis
    proof (cases "stop \<le> n")
      case True
      with ft Inl t' n1 show ?thesis by (subst retry_loop.simps) simp
    next
      case False
      from "1.IH"[OF ft[symmetric] Inl False "1.prems"] obtain n2
        where n2: "snd (retry_loop stop wait f (Suc n) (t' @ [Sleep wait])) = (t' @ [Sleep wait]) @ n2"
          "list_all P n2" by blast
      have "snd (retry_loop stop wait f n t) = t @ (n1 @ [Sleep wait] @ n2)"
        using ft Inl False n2 t' by (subst retry_loop.simps) simp
      moreover have "list_all P (n1 @ [Sleep wait] @ n2)" using n1 n2 "1.prems"(2) by simp
      ultimately show ?thesis by blast
    qed
  qed
qed

lemma only_retry:
  assumes "only P f" and "P (Sleep wait)"
  shows "only P (retry stop wait f)"
  unfolding only_def retry_def
proof
  fix t
  show "\<exists>new. snd (retry_loop stop wait f 1 t) = t @ new \<and> list_all P new"
    using assms by (rule only_retry_loop)
qed

lemmas only_intros = only_return only_raise only_lift only_perform only_print only_print_exc
  only_bind only_seq only_try_except only_retry




lemma only_send_cfn_response:
  assumes "\<And>m a. P (Print m a)" "\<And>e. P (PrintExc e)" "\<And>m u b h. P (HttpRequest m u b h)"
  shows "only P (send_cfn_response w event ctx status d)"
  unfolding send_cfn_response_def Let_def
  by (intro only_intros assms)

lemma only_apply_bucket_policy:
  assumes "\<And>m a. P (Print m a)" "\<And>e. P (PrintExc e)" "\<And>m u b h. P (HttpRequest m u b h)"
    "\<And>b p. P (PutBucketPolicy b p)" "\<And>b. P (DeleteBucketPolicy b)"
  shows "only P (apply_bucket_policy w event ctx)"
  unfolding apply_bucket_policy_def Let_def
  by (auto intro!: only_intros only_send_cfn_response assms)

lemma serialized_size_eq: "serialized_size item = Inr (length (json_dumps item))"
  by (simp add: serialized_size_def sbind_def utf8_encode_json_dumps)

lemma fetch_text_eq:
  "fetch_text w bucket key t =
     (case s3_get_object w t bucket key of
        Inl e \<Rightarrow> (Inl e, t @ [GetObject bucket key, Print ''S3 error'' [LExn e]])
      | Inr body \<Rightarrow>
          (case utf8_decode body of
             Inl e \<Rightarrow> (Inl e, t @ [GetObject bucket key, Print ''S3 error'' [LExn e]])
           | Inr doc \<Rightarrow>
               (Inr doc, t @ [GetObject bucket key, Print ''Loaded'' [LVal key, LNat (length doc)]])))"
  by (simp add: fetch_text_def io_defs split: sum.splits)

lemma persist_eq:
  "persist w fl environ key bucket doc summary t =
     (Inr (),
      t @ (if \<not> ENABLE_DYNAMODB fl then []
           else case environ (lit ''TABLE_NAME'') of
             None \<Rightarrow> [Print ''DynamoDB error'' [LExn (KeyError (PStr (lit ''TABLE_NAME'')))],
                      PrintExc (KeyError (PStr (lit ''TABLE_NAME'')))]
           | Some table \<Rightarrow>
               if 400000 < length (json_dumps (summary_item key bucket doc summary)) then
                 [Print ''DynamoDB error''
                    [LExn (ValueError (lit ''Item size exceeds DynamoDB 400 KB limit''))],
                  PrintExc (ValueError (lit ''Item size exceeds DynamoDB 400 KB limit''))]
               else
                 PutItem table (summary_item key bucket doc summary) #
                 (case table_put_item w t table (summary_item key bucket doc summary) of
                    Inl e \<Rightarrow> [Print ''DynamoDB error'' [LExn e], PrintExc e]
                  | Inr u \<Rightarrow> [Print ''Saved to DynamoDB'' []])))"
  by (simp add: persist_def io_defs environ_getitem_def serialized_size_eq Let_def
      split: option.splits sum.splits)

lemma notify_eq:
  "notify w fl environ key bucket summary t =
     (Inr (),
      t @ (if \<not> ENABLE_SNS fl then []
           else case environ (lit ''TOPIC_ARN'') of
             None \<Rightarrow> [Print ''SNS error'' [LExn (KeyError (PStr (lit ''TOPIC_ARN'')))],
                      PrintExc (KeyError (PStr (lit ''TOPIC_ARN'')))]
           | Some topic \<Rightarrow>
               Publish topic (notification_subject w key) (notification_message w key bucket summary) #
               (case sns_publish w t topic (notification_subject w key)
                       (notification_message w key bucket summary) of
                  Inl e \<Rightarrow> [Print ''SNS error'' [LExn e], PrintExc e]
                | Inr u \<Rightarrow> [Print ''SNS notification sent'' []])))"
  by (simp add: notify_def io_defs environ_getitem_def Let_def split: option.splits sum.splits)

lemma summarize_fst:
  "fst (summarize w fl environ doc t) =
     Inr (if ENABLE_OPENROUTER fl then
            (case fst (call_openrouter w environ doc t) of
               Inl e \<Rightarrow> placeholder_summary
             | Inr resp \<Rightarrow>
                 (case response_content resp of None \<Rightarrow> placeholder_summary | Some s \<Rightarrow> s))
          else placeholder_summary)"
  by (simp add: summarize_def io_defs response_content_def Let_def
      split: prod.splits sum.splits option.splits list.splits)

lemma handler_ingest:
  assumes "is_custom_resource_event event = Inr False"
    and "s3_event_target event = Inr (bucket, key)"
    and "fetch_text w bucket key (t @ [Print ''Received event'' [LStr (json_dumps event)]]) = (Inr doc, t1)"
    and "summarize w fl environ doc t1 = (Inr summary, t2)"
  shows "lambda_handler w fl environ event ctx t =
     (Inr success_result,
      snd (notify w fl environ key bucket summary
             (snd (persist w fl environ key bucket doc summary t2)))
      @ [Print ''Processing took'' []])"
  using assms
  by (simp add: lambda_handler_def io_defs persist_eq notify_eq)




lemma summarize_total:
  "\<exists>summary t2. summarize w fl environ doc t1 = (Inr summary, t2)"
  using summarize_fst[of w fl environ doc t1]
  by (cases "summarize w fl environ doc t1") auto






lemma s3_event_routes:
  "is_custom_resource_event s3_event = Inr False"
  "s3_event_target s3_event = Inr (PStr (lit ''b1''), PStr (lit ''k1.txt''))"
  by (simp_all add: s3_event_def is_custom_resource_event_def s3_event_target_def
      invalid_s3_event_def sbind_def seq_index_def)

lemma utf8_decode_hello:
  "utf8_decode (map of_nat (lit ''hello world'')) = Inr (lit ''hello world'')"
  by (simp add: lit_def)

lemma fetch_hello:
  "fetch_text world_ok bucket key t =
     (Inr (lit ''hello world''),
      t @ [GetObject bucket key, Print ''Loaded'' [LVal key, LNat 11]])"
  by (simp add: fetch_text_eq world_ok_def utf8_decode_hello)









lemma call_openrouter_ok:
  "fst (call_openrouter world_ok environ_full doc t)
     = Inr (ChatCompletion (Some [Choice (Some (ChatMessage (Some (lit ''Bref.''))))]))"
  by (simp add: call_openrouter_def retry_3_unroll call_openrouter_attempt_eq world_ok_def
      environ_full_def Let_def)

section \<open>Summarization client: bounded retry\<close>

text \<open>
  Claim C8. The summarization client makes at most three attempts of the inference
  call: an attempt that raises any exception is followed by a sleep of two seconds and
  the next attempt, whatever the exception; when the third attempt raises, the
  exception of the retry library, wrapping the exception of that attempt, propagates
  to the caller, and no fourth attempt is made. In particular at most three inference
  requests are sent.
\<close>

theorem call_openrouter_three_attempts:
  "call_openrouter w environ text t =
     (let attempt = call_openrouter_attempt w environ text in
      case attempt t of
        (Inr r, t1) \<Rightarrow> (Inr r, t1)
      | (Inl e1, t1) \<Rightarrow>
          (case attempt (t1 @ [Sleep 2]) of
             (Inr r, t2) \<Rightarrow> (Inr r, t2)
           | (Inl e2, t2) \<Rightarrow>
               (case attempt (t2 @ [Sleep 2]) of
                  (Inr r, t3) \<Rightarrow> (Inr r, t3)
                | (Inl e3, t3) \<Rightarrow> (Inl (RetryError e3), t3))))
   \<and> length (filter is_chat_create (new_calls (call_openrouter w environ text) t)) \<le> 3"
proof
  show "call_openrouter w environ text t =
     (let attempt = call_openrouter_attempt w environ text in
      case attempt t of
        (Inr r, t1) \<Rightarrow> (Inr r, t1)
      | (Inl e1, t1) \<Rightarrow>
          (case attempt (t1 @ [Sleep 2]) of
             (Inr r, t2) \<Rightarrow> (Inr r, t2)
           | (Inl e2, t2) \<Rightarrow>
               (case attempt (t2 @ [Sleep 2]) of
                  (Inr r, t3) \<Rightarrow> (Inr r, t3)
                | (Inl e3, t3) \<Rightarrow> (Inl (RetryError e3), t3))))"
    unfolding call_openrouter_def Let_def by (rule retry_3_unroll)
next
  have "\<exists>new. snd (retry 3 2 (call_openrouter_attempt w environ text) t) = t @ new
      \<and> length (filter is_chat_create new) \<le> 3"
    by (rule retry_3_count) (rule call_openrouter_attempt_calls, simp)
  then obtain new where "snd (call_openrouter w environ text t) = t @ new"
    and "length (filter is_chat_create new) \<le> 3"
    unfolding call_openrouter_def by blast
  then show "length (filter is_chat_create (new_calls (call_openrouter w environ text) t)) \<le> 3"
    by (simp add: new_calls_append)
qed

theorem call_openrouter_three_attempts_witness:
  "fst (call_openrouter world_llm_down environ_full (lit ''hello world'') [])
     = Inl (RetryError (ClientError (lit ''rate limited'')))
   \<and> length (filter is_chat_create
        (new_calls (call_openrouter world_llm_down environ_full (lit ''hello world'')) [])) = 3"
proof -
  have eq: "call_openrouter world_llm_down environ_full (lit ''hello world'') [] =
     (let attempt = call_openrouter_attempt world_llm_down environ_full (lit ''hello world'') in
      case attempt [] of
        (Inr r, t1) \<Rightarrow> (Inr r, t1)
      | (Inl e1, t1) \<Rightarrow>
          (case attempt (t1 @ [Sleep 2]) of
             (Inr r, t2) \<Rightarrow> (Inr r, t2)
           | (Inl e2, t2) \<Rightarrow>
               (case attempt (t2 @ [Sleep 2]) of
                  (Inr r, t3) \<Rightarrow> (Inr r, t3)
                | (Inl e3, t3) \<Rightarrow> (Inl (RetryError e3), t3))))"
    using call_openrouter_three_attempts
      [of world_llm_down environ_full "lit ''hello world''" "[]"] by blast
  show ?thesis
    unfolding new_calls_def eq Let_def attempt_llm_down by simp
qed

section \<open>Callback reporter\<close>

text \<open>
  Claim C3, as amended. For every event that carries \<open>StackId\<close>, \<open>RequestId\<close> and
  \<open>LogicalResourceId\<close>, whatever the status, the data and the behaviour of the
  transport, the callback reporter returns a boolean and raises no exception. When the
  event carries a \<open>ResponseURL\<close> it performs exactly one HTTP request, a PUT to that
  URL, and returns true if the request returns and false, after logging the exception,
  if the request raises; when the event has no \<open>ResponseURL\<close> it performs no request,
  logs the \<open>KeyError\<close> and returns false.
\<close>

theorem send_cfn_response_returns_bool:
  assumes "py_getitem event (PStr (lit ''StackId'')) = Inr sid"
    and "py_getitem event (PStr (lit ''RequestId'')) = Inr rid"
    and "py_getitem event (PStr (lit ''LogicalResourceId'')) = Inr lid"
  shows "\<exists>ok new. send_cfn_response w event ctx status d t = (Inr ok, t @ new)
     \<and> (case py_getitem event (PStr (lit ''ResponseURL'')) of
          Inl e \<Rightarrow>
            \<not> ok \<and> filter is_http_request new = []
            \<and> Print ''Failed to send CloudFormation response'' [LExn e] \<in> set new
        | Inr url \<Rightarrow>
            (\<exists>body headers.
               filter is_http_request new = [HttpRequest (lit ''PUT'') url body headers]
               \<and> (case http_request w t (lit ''PUT'') url body headers of
                    Inr st \<Rightarrow> ok
                  | Inl e \<Rightarrow>
                      \<not> ok \<and> Print ''Failed to send CloudFormation response'' [LExn e] \<in> set new)))"
  unfolding send_cfn_response_eq response_body_Inr[OF assms]
  by (auto split: sum.splits)

theorem send_cfn_response_returns_bool_witness:
  "send_cfn_response world_ok delete_event (Context (lit ''stream-1'')) (lit ''SUCCESS'') PNone []
     = (Inr True, new_calls (send_cfn_response world_ok delete_event (Context (lit ''stream-1'')) (lit ''SUCCESS'') PNone) [])
   \<and> length (filter is_http_request
        (new_calls (send_cfn_response world_ok delete_event (Context (lit ''stream-1'')) (lit ''SUCCESS'') PNone) [])) = 1"
  using send_cfn_response_returns_bool
    [of delete_event "PStr (lit ''stack-1'')" "PStr (lit ''req-1'')" "PStr (lit ''BucketPolicy'')"
        world_ok "Context (lit ''stream-1'')" "lit ''SUCCESS''" PNone "[]"]
  by (auto simp: delete_event_def world_ok_def new_calls_def)

text \<open>
  The claim as stated, for any input event, fails: the response body is built before
  the \<open>try\<close> block, so an event without \<open>StackId\<close> makes the reporter raise
  \<open>KeyError\<close>, with no request made.
\<close>

theorem send_cfn_response_raises_counterexample:
  "send_cfn_response world_ok (PDict [(lit ''ResponseURL'', PStr (lit ''http://x''))])
     (Context (lit ''stream-1'')) (lit ''FAILED'') PNone []
   = (Inl (KeyError (PStr (lit ''StackId''))), [])"
  by (simp add: send_cfn_response_eq response_body_def sbind_def)



section \<open>Provisioning-callback flow\<close>

text \<open>
  Claim C1, as amended. For every invocation whose event has request type Create,
  Update or Delete, a resource-properties dict with a \<open>BucketName\<close>, and the entries
  \<open>StackId\<close>, \<open>RequestId\<close>, \<open>LogicalResourceId\<close> and \<open>ResponseURL\<close>, exactly
  one HTTP request is made, a PUT to the \<open>ResponseURL\<close>; its body is the JSON text of
  a payload whose \<open>Status\<close> is \<open>SUCCESS\<close> or \<open>FAILED\<close> and whose \<open>StackId\<close>,
  \<open>RequestId\<close> and \<open>LogicalResourceId\<close> are those of the event. This holds whatever
  the services answer, so also when the branch raises; the handler returns \<open>None\<close>.
\<close>

theorem provisioning_exactly_one_put:
  assumes "dict_get event (lit ''RequestType'') = Some rt"
    and "rt = PStr (lit ''Create'') \<or> rt = PStr (lit ''Update'') \<or> rt = PStr (lit ''Delete'')"
    and "dict_get event (lit ''ResourceProperties'') = Some (PDict props)"
    and "map_of props (lit ''BucketName'') = Some bucket"
    and "dict_get event (lit ''StackId'') = Some sid"
    and "dict_get event (lit ''RequestId'') = Some rid"
    and "dict_get event (lit ''LogicalResourceId'') = Some lid"
    and "dict_get event (lit ''ResponseURL'') = Some url"
  shows "\<exists>status payload body.
     (status = lit ''SUCCESS'' \<or> status = lit ''FAILED'')
     \<and> utf8_encode (json_dumps payload) = Inr body
     \<and> filter is_http_request (new_calls (lambda_handler w fl environ event ctx) t)
         = [HttpRequest (lit ''PUT'') url body (put_headers (json_dumps payload))]
     \<and> dict_get payload (lit ''Status'') = Some (PStr status)
     \<and> dict_get payload (lit ''StackId'') = Some sid
     \<and> dict_get payload (lit ''RequestId'') = Some rid
     \<and> dict_get payload (lit ''LogicalResourceId'') = Some lid
     \<and> fst (lambda_handler w fl environ event ctx t) = Inr PNone"
proof -
  from handler_provisioning[OF assms, where w=w and t=t and ctx=ctx and fl=fl and environ=environ]
  obtain status data payload pre rest where
    st: "status = lit ''SUCCESS'' \<or> status = lit ''FAILED''"
    and rb: "response_body event ctx status data = Inr payload"
    and h: "lambda_handler w fl environ event ctx t =
         (Inr PNone, t @ pre @ HttpRequest (lit ''PUT'') url (map of_nat (json_dumps payload))
                        (put_headers (json_dumps payload)) # rest)"
    and pre: "filter is_http_request pre = []" and rest: "filter is_http_request rest = []"
    by blast
  have "filter is_http_request (new_calls (lambda_handler w fl environ event ctx) t)
         = [HttpRequest (lit ''PUT'') url (map of_nat (json_dumps payload))
              (put_headers (json_dumps payload))]"
    using pre rest by (simp add: new_calls_def h)
  moreover from response_body_fields[OF rb] assms(5,6,7)
  have "dict_get payload (lit ''Status'') = Some (PStr status)
     \<and> dict_get payload (lit ''StackId'') = Some sid
     \<and> dict_get payload (lit ''RequestId'') = Some rid
     \<and> dict_get payload (lit ''LogicalResourceId'') = Some lid"
    by simp
  ultimately show ?thesis using st h by (auto simp: utf8_encode_json_dumps)
qed

theorem provisioning_exactly_one_put_witness:
  "\<exists>status payload body.
     (status = lit ''SUCCESS'' \<or> status = lit ''FAILED'')
     \<and> utf8_encode (json_dumps payload) = Inr body
     \<and> filter is_http_request
         (new_calls (lambda_handler world_ok flags_on environ_full create_event
            (Context (lit ''stream-1''))) [])
         = [HttpRequest (lit ''PUT'') (PStr (lit ''http://x'')) body (put_headers (json_dumps payload))]
     \<and> dict_get payload (lit ''Status'') = Some (PStr status)
     \<and> dict_get payload (lit ''StackId'') = Some (PStr (lit ''stack-1''))
     \<and> dict_get payload (lit ''RequestId'') = Some (PStr (lit ''req-1''))
     \<and> dict_get payload (lit ''LogicalResourceId'') = Some (PStr (lit ''BucketPolicy''))
     \<and> fst (lambda_handler world_ok flags_on environ_full create_event
              (Context (lit ''stream-1'')) []) = Inr PNone"
  by (rule provisioning_exactly_one_put
        [where rt = "PStr (lit ''Create'')"
           and props = "[(lit ''BucketName'', PStr (lit ''b1'')), (lit ''PolicyDocument'', PDict [])]"
           and bucket = "PStr (lit ''b1'')"])
     (simp_all add: create_event_def)

text \<open>
  The claim as stated fails on two events that the dispatcher routes to the
  provisioning flow. With a request type other than Create, Update and Delete no branch
  runs and no request is made. Without the identifiers the response body cannot be
  built: the \<open>KeyError\<close> leaves the flow, again in its handler, and the entry point
  returns the failure result with no request made.
\<close>

theorem provisioning_no_put_counterexample:
  "is_custom_resource_event rollback_event = Inr True
   \<and> lambda_handler world_ok flags_on environ_full rollback_event (Context (lit ''stream-1'')) []
       = (Inr PNone,
          [Print ''Received event'' [LStr (json_dumps rollback_event)],
           Print ''Custom resource event'' [LVal (PStr (lit ''Rollback''))]])
   \<and> is_custom_resource_event create_event_without_ids = Inr True
   \<and> lambda_handler world_ok flags_on environ_full create_event_without_ids
         (Context (lit ''stream-1'')) []
       = (Inr failure_result,
          [Print ''Received event'' [LStr (json_dumps create_event_without_ids)],
           Print ''Custom resource event'' [LVal (PStr (lit ''Create''))],
           PutBucketPolicy (PStr (lit ''b1'')) (json_dumps (PDict [])),
           Print ''Applied bucket policy to'' [LVal (PStr (lit ''b1''))],
           Print ''Error in bucket policy operation'' [LExn (KeyError (PStr (lit ''StackId'')))],
           PrintExc (KeyError (PStr (lit ''StackId''))),
           Print ''General error'' [LExn (KeyError (PStr (lit ''StackId'')))],
           PrintExc (KeyError (PStr (lit ''StackId'')))])"
proof -
  have a: "is_custom_resource_event rollback_event = Inr True"
    by (simp add: is_custom_resource_event_def sbind_def rollback_event_def)
  have b: "is_custom_resource_event create_event_without_ids = Inr True"
    by (simp add: is_custom_resource_event_def sbind_def create_event_without_ids_def)
  have c: "apply_bucket_policy world_ok rollback_event ctx t
      = (Inr (), t @ [Print ''Custom resource event'' [LVal (PStr (lit ''Rollback''))]])" for ctx t
    by (simp add: apply_bucket_policy_def io_defs rollback_event_def)
  have rb: "response_body create_event_without_ids ctx status d
      = Inl (KeyError (PStr (lit ''StackId'')))" for ctx status d
    by (simp add: response_body_def sbind_def create_event_without_ids_def)
  have g1: "py_getitem create_event_without_ids (PStr (lit ''RequestType''))
      = Inr (PStr (lit ''Create''))"
    by (simp add: create_event_without_ids_def)
  have g2: "py_getitem create_event_without_ids (PStr (lit ''ResourceProperties''))
      = Inr (PDict [(lit ''BucketName'', PStr (lit ''b1'')), (lit ''PolicyDocument'', PDict [])])"
    by (simp add: create_event_without_ids_def)
  have d: "apply_bucket_policy world_ok create_event_without_ids ctx t
      = (Inl (KeyError (PStr (lit ''StackId''))),
         t @ [Print ''Custom resource event'' [LVal (PStr (lit ''Create''))],
              PutBucketPolicy (PStr (lit ''b1'')) (json_dumps (PDict [])),
              Print ''Applied bucket policy to'' [LVal (PStr (lit ''b1''))],
              Print ''Error in bucket policy operation'' [LExn (KeyError (PStr (lit ''StackId'')))],
              PrintExc (KeyError (PStr (lit ''StackId'')))])" for ctx t
    by (simp add: apply_bucket_policy_def io_defs sbind_def send_cfn_response_eq rb Let_def
        world_ok_def g1 g2)
  from a b show ?thesis by (simp add: handler_custom[OF a] handler_custom[OF b] c d)
qed

text \<open>
  Claim C2, as amended. For every invocation whose event has request type Delete, a
  resource-properties dict with a \<open>BucketName\<close>, and the entries \<open>StackId\<close>,
  \<open>RequestId\<close>, \<open>LogicalResourceId\<close> and \<open>ResponseURL\<close>, the single callback
  request carries \<open>Status\<close> \<open>SUCCESS\<close>, whatever the removal call answers: the
  removal is attempted, and when it raises, the exception is logged and the flow goes on
  to report \<open>SUCCESS\<close>.
\<close>

theorem delete_reports_success:
  assumes "dict_get event (lit ''RequestType'') = Some (PStr (lit ''Delete''))"
    and "dict_get event (lit ''ResourceProperties'') = Some (PDict props)"
    and "map_of props (lit ''BucketName'') = Some bucket"
    and "dict_get event (lit ''StackId'') = Some sid"
    and "dict_get event (lit ''RequestId'') = Some rid"
    and "dict_get event (lit ''LogicalResourceId'') = Some lid"
    and "dict_get event (lit ''ResponseURL'') = Some url"
  shows "\<exists>payload body.
     utf8_encode (json_dumps payload) = Inr body
     \<and> filter is_http_request (new_calls (lambda_handler w fl environ event ctx) t)
         = [HttpRequest (lit ''PUT'') url body (put_headers (json_dumps payload))]
     \<and> dict_get payload (lit ''Status'') = Some (PStr (lit ''SUCCESS''))
     \<and> DeleteBucketPolicy bucket \<in> set (new_calls (lambda_handler w fl environ event ctx) t)
     \<and> (\<forall>e. s3_delete_bucket_policy w
               (t @ [Print ''Received event'' [LStr (json_dumps event)],
                     Print ''Custom resource event'' [LVal (PStr (lit ''Delete''))]]) bucket = Inl e
           \<longrightarrow> Print ''Could not remove bucket policy'' [LExn e]
                 \<in> set (new_calls (lambda_handler w fl environ event ctx) t))"
proof -
  have rt3: "PStr (lit ''Delete'') = PStr (lit ''Create'') \<or> PStr (lit ''Delete'') = PStr (lit ''Update'')
      \<or> PStr (lit ''Delete'') = PStr (lit ''Delete'')" by simp
  from handler_provisioning[OF assms(1) rt3 assms(2-7),
      where w=w and t=t and ctx=ctx and fl=fl and environ=environ]
  obtain status data payload pre rest where
    st: "status = lit ''SUCCESS''"
    and del: "DeleteBucketPolicy bucket \<in> set pre"
    and log: "\<forall>e. s3_delete_bucket_policy w
                     (t @ [Print ''Received event'' [LStr (json_dumps event)],
                           Print ''Custom resource event'' [LVal (PStr (lit ''Delete''))]]) bucket = Inl e
                 \<longrightarrow> Print ''Could not remove bucket policy'' [LExn e] \<in> set pre"
    and rb: "response_body event ctx status data = Inr payload"
    and h: "lambda_handler w fl environ event ctx t =
         (Inr PNone, t @ pre @ HttpRequest (lit ''PUT'') url (map of_nat (json_dumps payload))
                        (put_headers (json_dumps payload)) # rest)"
    and pre: "filter is_http_request pre = []" and rest: "filter is_http_request rest = []"
    by blast
  have nc: "new_calls (lambda_handler w fl environ event ctx) t =
      pre @ HttpRequest (lit ''PUT'') url (map of_nat (json_dumps payload))
                        (put_headers (json_dumps payload)) # rest"
    by (simp add: new_calls_def h)
  have "dict_get payload (lit ''Status'') = Some (PStr (lit ''SUCCESS''))"
    using response_body_fields[OF rb] st by simp
  moreover have "filter is_http_request (new_calls (lambda_handler w fl environ event ctx) t)
         = [HttpRequest (lit ''PUT'') url (map of_nat (json_dumps payload))
              (put_headers (json_dumps payload))]"
    using pre rest by (simp add: nc)
  moreover have "DeleteBucketPolicy bucket \<in> set (new_calls (lambda_handler w fl environ event ctx) t)"
    using del by (simp add: nc)
  moreover have "\<forall>e. s3_delete_bucket_policy w
               (t @ [Print ''Received event'' [LStr (json_dumps event)],
                     Print ''Custom resource event'' [LVal (PStr (lit ''Delete''))]]) bucket = Inl e
           \<longrightarrow> Print ''Could not remove bucket policy'' [LExn e]
                 \<in> set (new_calls (lambda_handler w fl environ event ctx) t)"
    using log by (simp add: nc)
  ultimately show ?thesis by (auto simp: utf8_encode_json_dumps)
qed

theorem delete_reports_success_witness:
  "\<exists>payload body.
     utf8_encode (json_dumps payload) = Inr body
     \<and> filter is_http_request
         (new_calls (lambda_handler world_delete_fails flags_on environ_full delete_event
            (Context (lit ''stream-1''))) [])
         = [HttpRequest (lit ''PUT'') (PStr (lit ''http://x'')) body (put_headers (json_dumps payload))]
     \<and> dict_get payload (lit ''Status'') = Some (PStr (lit ''SUCCESS''))
     \<and> Print ''Could not remove bucket policy'' [LExn (ClientError (lit ''NoSuchBucketPolicy''))]
         \<in> set (new_calls (lambda_handler world_delete_fails flags_on environ_full delete_event
                   (Context (lit ''stream-1''))) [])"
proof -
  have h1: "dict_get delete_event (lit ''RequestType'') = Some (PStr (lit ''Delete''))"
    and h2: "dict_get delete_event (lit ''ResourceProperties'')
               = Some (PDict [(lit ''BucketName'', PStr (lit ''b1''))])"
    and h3: "map_of [(lit ''BucketName'', PStr (lit ''b1''))] (lit ''BucketName'')
               = Some (PStr (lit ''b1''))"
    and h4: "dict_get delete_event (lit ''StackId'') = Some (PStr (lit ''stack-1''))"
    and h5: "dict_get delete_event (lit ''RequestId'') = Some (PStr (lit ''req-1''))"
    and h6: "dict_get delete_event (lit ''LogicalResourceId'') = Some (PStr (lit ''BucketPolicy''))"
    and h7: "dict_get delete_event (lit ''ResponseURL'') = Some (PStr (lit ''http://x''))"
    by (simp_all add: delete_event_def)
  have fails: "s3_delete_bucket_policy world_delete_fails t bucket
      = Inl (ClientError (lit ''NoSuchBucketPolicy''))" for t bucket
    by (simp add: world_delete_fails_def)
  from delete_reports_success[OF h1 h2 h3 h4 h5 h6 h7,
      where w = world_delete_fails and fl = flags_on and environ = environ_full
        and ctx = "Context (lit ''stream-1'')" and t = "[]"]
  show ?thesis using fails by blast
qed

text \<open>
  The claim as stated, for every Delete invocation, fails on the event of the
  specification's own scenario, which has a \<open>ResponseURL\<close> but none of the three
  identifiers: the removal raises and is logged, but the response body cannot be
  built, no request is made, and the entry point returns the failure result.
\<close>

theorem delete_without_ids_counterexample:
  "is_custom_resource_event delete_event_without_ids = Inr True
   \<and> lambda_handler world_delete_fails flags_on environ_full delete_event_without_ids
         (Context (lit ''stream-1'')) []
       = (Inr failure_result,
          [Print ''Received event'' [LStr (json_dumps delete_event_without_ids)],
           Print ''Custom resource event'' [LVal (PStr (lit ''Delete''))],
           DeleteBucketPolicy (PStr (lit ''b1'')),
           Print ''Could not remove bucket policy'' [LExn (ClientError (lit ''NoSuchBucketPolicy''))],
           Print ''Error in bucket policy operation'' [LExn (KeyError (PStr (lit ''StackId'')))],
           PrintExc (KeyError (PStr (lit ''StackId''))),
           Print ''General error'' [LExn (KeyError (PStr (lit ''StackId'')))],
           PrintExc (KeyError (PStr (lit ''StackId'')))])"
proof -
  have b: "is_custom_resource_event delete_event_without_ids = Inr True"
    by (simp add: is_custom_resource_event_def sbind_def delete_event_without_ids_def)
  have rb: "response_body delete_event_without_ids ctx status d
      = Inl (KeyError (PStr (lit ''StackId'')))" for ctx status d
    by (simp add: response_body_def sbind_def delete_event_without_ids_def)
  have g1: "py_getitem delete_event_without_ids (PStr (lit ''RequestType''))
      = Inr (PStr (lit ''Delete''))"
    by (simp add: delete_event_without_ids_def)
  have g2: "py_getitem delete_event_without_ids (PStr (lit ''ResourceProperties''))
      = Inr (PDict [(lit ''BucketName'', PStr (lit ''b1''))])"
    by (simp add: delete_event_without_ids_def)
  have d: "apply_bucket_policy world_delete_fails delete_event_without_ids ctx t
      = (Inl (KeyError (PStr (lit ''StackId''))),
         t @ [Print ''Custom resource event'' [LVal (PStr (lit ''Delete''))],
              DeleteBucketPolicy (PStr (lit ''b1'')),
              Print ''Could not remove bucket policy'' [LExn (ClientError (lit ''NoSuchBucketPolicy''))],
              Print ''Error in bucket policy operation'' [LExn (KeyError (PStr (lit ''StackId'')))],
              PrintExc (KeyError (PStr (lit ''StackId'')))])" for ctx t
    by (simp add: apply_bucket_policy_def io_defs sbind_def send_cfn_response_eq rb Let_def
        world_delete_fails_def world_ok_def g1 g2)
  from b show ?thesis by (simp add: handler_custom[OF b] d)
qed

section \<open>Entry point\<close>




section \<open>Dispatcher\<close>




section \<open>Ingestion flow\<close>

text \<open>
  Claim C4. For every event that the dispatcher routes to the ingestion flow, that
  passes the validation and whose fetch step succeeds, the summary step raises no
  exception and leaves as summary either the message content of the first choice of
  the response or the placeholder: the content when summarization is enabled, the call
  returns a response, the response has choices and the content is a non-empty string;
  the placeholder when summarization is disabled, when the response has no choices or
  no content, and when any exception occurs, exhausted retries included. The flow then
  runs the persist and notify steps with that summary and the entry point returns the
  success result, so no exception surfaces.
\<close>

theorem summary_is_content_or_placeholder:
  assumes "is_custom_resource_event event = Inr False"
    and "s3_event_target event = Inr (bucket, key)"
    and "fetch_text w bucket key (t @ [Print ''Received event'' [LStr (json_dumps event)]])
           = (Inr doc, t1)"
  shows "\<exists>summary t2.
     summarize w fl environ doc t1 = (Inr summary, t2)
     \<and> summary =
         (if ENABLE_OPENROUTER fl then
            (case fst (call_openrouter w environ doc t1) of
               Inl e \<Rightarrow> placeholder_summary
             | Inr resp \<Rightarrow>
                 (case response_content resp of None \<Rightarrow> placeholder_summary | Some s \<Rightarrow> s))
          else placeholder_summary)
     \<and> lambda_handler w fl environ event ctx t =
         (Inr success_result,
          snd (notify w fl environ key bucket summary
                 (snd (persist w fl environ key bucket doc summary t2)))
          @ [Print ''Processing took'' []])"
proof -
  obtain summary t2 where s: "summarize w fl environ doc t1 = (Inr summary, t2)"
    using summarize_total by blast
  from summarize_fst[of w fl environ doc t1] s
  have "summary =
         (if ENABLE_OPENROUTER fl then
            (case fst (call_openrouter w environ doc t1) of
               Inl e \<Rightarrow> placeholder_summary
             | Inr resp \<Rightarrow>
                 (case response_content resp of None \<Rightarrow> placeholder_summary | Some s \<Rightarrow> s))
          else placeholder_summary)"
    by simp
  with s handler_ingest[OF assms s] show ?thesis by blast
qed

theorem summary_is_content_or_placeholder_witness:
  "\<exists>summary t2.
     summarize world_ok flags_on environ_full (lit ''hello world'')
       [Print ''Received event'' [LStr (json_dumps s3_event)],
        GetObject (PStr (lit ''b1'')) (PStr (lit ''k1.txt'')),
        Print ''Loaded'' [LVal (PStr (lit ''k1.txt'')), LNat 11]] = (Inr summary, t2)
     \<and> summary = lit ''Bref.''
     \<and> lambda_handler world_ok flags_on environ_full s3_event (Context (lit ''stream-1'')) [] =
         (Inr success_result,
          snd (notify world_ok flags_on environ_full (PStr (lit ''k1.txt'')) (PStr (lit ''b1'')) summary
                 (snd (persist world_ok flags_on environ_full (PStr (lit ''k1.txt''))
                         (PStr (lit ''b1'')) (lit ''hello world'') summary t2)))
          @ [Print ''Processing took'' []])"
proof -
  have f: "fetch_text world_ok (PStr (lit ''b1'')) (PStr (lit ''k1.txt''))
      ([] @ [Print ''Received event'' [LStr (json_dumps s3_event)]])
     = (Inr (lit ''hello world''),
        [Print ''Received event'' [LStr (json_dumps s3_event)],
         GetObject (PStr (lit ''b1'')) (PStr (lit ''k1.txt'')),
         Print ''Loaded'' [LVal (PStr (lit ''k1.txt'')), LNat 11]])"
    by (simp add: fetch_hello)
  have on: "ENABLE_OPENROUTER flags_on" by (simp add: flags_on_def)
  from summary_is_content_or_placeholder[OF s3_event_routes f,
      where fl = flags_on and environ = environ_full and ctx = "Context (lit ''stream-1'')"]
  show ?thesis
    by (simp add: on call_openrouter_ok response_content_def)
qed

end
